theory Spec2Isabelle
  imports Complex_Main
begin

section \<open>The pyclaw controller: output scheduling and run orchestration\<close>

text \<open>
  A shallow embedding of \<^verbatim>\<open>src/pyclaw/controller.py\<close>. Times are Python floats in the
  source; here they are the values of a type \<open>'f\<close> that nothing is assumed about, and the
  floating-point operations on them are parameters, so that every statement holds for the
  IEEE doubles of the program, with their rounding, their infinities and their NaN. The
  objects the controller mutates in place (itself, the solver, the solution, the file
  system) are threaded explicitly, and every call that leaves the module is recorded in a
  trace of events.
\<close>

subsection \<open>Errors\<close>

datatype error =
    NoSolverOrSolution     \<comment> \<open>line 299\<close>
  | NoSolverSet            \<comment> \<open>line 228\<close>
  | SolverWrongType        \<comment> \<open>line 230\<close>
  | SolverInvalid string   \<comment> \<open>line 233, carrying the solver's reason\<close>
  | SolutionInvalid        \<comment> \<open>line 237\<close>
  | StatesInvalid          \<comment> \<open>line 239\<close>
  | InvalidOutputStyle int \<comment> \<open>line 327\<close>
  | NegativeDimensions     \<comment> \<open>\<^verbatim>\<open>np.ones\<close> of a negative size, line 324\<close>
  | RefusingToOverwrite    \<comment> \<open>line 343\<close>
  | UnboundLocalError string \<comment> \<open>line 420: Python's subclass of NameError for an unbound local\<close>
  | Propagated string      \<comment> \<open>an exception raised inside a collaborator\<close>

subsection \<open>Library functions the controller calls\<close>

text \<open>
  The floating-point arithmetic of the platform: the conversion \<^verbatim>\<open>float(n)\<close> of an integer,
  the four operations, and the comparison \<^verbatim>\<open>==\<close> (which is not the identity of values: a
  NaN differs from itself).
\<close>

record 'f float_arith =
  fl_of_int :: "int \<Rightarrow> 'f"
  fl_add :: "'f \<Rightarrow> 'f \<Rightarrow> 'f"
  fl_sub :: "'f \<Rightarrow> 'f \<Rightarrow> 'f"
  fl_mul :: "'f \<Rightarrow> 'f \<Rightarrow> 'f"
  fl_div :: "'f \<Rightarrow> 'f \<Rightarrow> 'f"
  fl_eq :: "'f \<Rightarrow> 'f \<Rightarrow> bool"

text \<open>
  \<^verbatim>\<open>numpy.linspace(start, stop, num)\<close> with its default \<^verbatim>\<open>endpoint=True\<close>, as in the numpy
  releases contemporary with the source (Python 2):
  \<^verbatim>\<open>
    num = int(num)
    if num <= 0: return array([], float)
    if num == 1: return array([float(start)])
    step = (stop-start)/float((num-1))
    y = arange(0, num) * step + start
    y[-1] = stop
  \<close>
  Every operation is the one of the arithmetic \<open>A\<close>.
\<close>

definition linspace :: "'f float_arith \<Rightarrow> 'f \<Rightarrow> 'f \<Rightarrow> int \<Rightarrow> 'f list" where
  "linspace A start stop num =
     (if num \<le> 0 then []
      else if num = 1 then [start]
      else let step = fl_div A (fl_sub A stop start) (fl_of_int A (num - 1));
               y = map (\<lambda>i. fl_add A (fl_mul A (fl_of_int A (int i)) step) start) [0..<nat num]
           in y[nat num - 1 := stop])"

text \<open>\<^verbatim>\<open>numpy.ones(n)\<close>: n times the float 1.0, a ValueError when n is negative.\<close>

definition ones :: "'f float_arith \<Rightarrow> int \<Rightarrow> error + 'f list" where
  "ones A n = (if n < 0 then Inl NegativeDimensions else Inr (replicate (nat n) (fl_of_int A 1)))"

text \<open>\<^verbatim>\<open>os.path.join(a, b)\<close> on a POSIX system.\<close>

definition path_join :: "string \<Rightarrow> string \<Rightarrow> string" where
  "path_join a b =
     (if take 1 b = ''/'' then b
      else if a = [] \<or> last a = CHR ''/'' then a @ b
      else a @ ''/'' @ b)"

subsection \<open>Data\<close>

text \<open>
  The solution: its time, its stored start frame, the gauges of its grid, the gauge streams
  of its grid (a handle per stream), and the numerical state, which stays opaque.
\<close>

record ('q, 'f) solution =
  sol_t :: 'f
  sol_start_frame :: int
  sol_gauges :: "nat list"
  sol_gauge_files :: "nat list"
  sol_state :: 'q

record ('sv, 'f) solver =
  slv_is_set_up :: bool    \<comment> \<open>\<^verbatim>\<open>_is_set_up\<close>\<close>
  slv_dt :: 'f
  slv_dt_initial :: 'f
  slv_is_Solver :: bool    \<comment> \<open>\<^verbatim>\<open>isinstance(self.solver, Solver)\<close>\<close>
  slv_core :: 'sv

text \<open>The attributes of the controller that \<^verbatim>\<open>run\<close> reads or writes, with the defaults'
  types: \<^verbatim>\<open>None\<close> is \<open>None\<close>.\<close>

record ('q, 'sv, 'f) controller =
  solver :: "('sv, 'f) solver option"
  solution :: "('q, 'f) solution option"
  start_frame :: int
  outdir :: string
  keep_copy :: bool
  frames :: "('q, 'f) solution list"
  write_aux_init :: bool
  write_aux_always :: bool
  output_handler :: "string option"
  output_format :: "string option"
  output_file_prefix :: "string option"
  output_clobber :: bool
  output_options :: "(string \<times> string) list"
  tfinal :: 'f
  output_style :: int
  num_output_times :: int
  out_times :: "'f list"
  nstepout :: int
  file_prefix_p :: string
  compute_p :: "('q \<Rightarrow> string + 'q) option"
  compute_F :: "('q \<Rightarrow> string + 'q) option"
  F_file_name :: string

text \<open>The keyword arguments of one \<^verbatim>\<open>solution.write\<close> call.\<close>

record write_call =
  wr_frame :: int
  wr_path :: string
  wr_file_prefix :: "string option"
  wr_io_handler :: string
  wr_file_format :: string
  wr_clobber :: bool
  wr_write_aux :: bool
  wr_write_p :: bool
  wr_options :: "(string \<times> string) list"

datatype file_mode = Truncate \<comment> \<open>\<^verbatim>\<open>'w'\<close>\<close> | Append \<comment> \<open>\<^verbatim>\<open>'a'\<close>\<close>

text \<open>One line of the functional log: the time and the functionals. The source joins their
  decimal renderings with spaces.\<close>

type_synonym 'f F_line = "'f \<times> 'f list"

datatype ('st, 'f) event =
    is_SetupGaugeFiles: SetupGaugeFiles string
  | is_SolverSetup: SolverSetup
  | is_WriteGaugeValues: WriteGaugeValues
  | is_Print: Print string
  | is_ComputeP: ComputeP
  | is_SolutionWrite: SolutionWrite write_call
  | is_ComputeF: ComputeF
  | is_FileWrite: FileWrite string file_mode "'f F_line"
  | is_LogInfo: LogInfo int 'f
  | is_EvolveToTime: EvolveToTime "'f option" "'st option"
  | is_FrameIncrement: FrameIncrement
  | is_GaugeFlush: GaugeFlush nat
  | is_GaugeClose: GaugeClose nat

text \<open>
  The collaborators the module consumes but does not define: the arithmetic, and the
  solver's and the solution's methods. \<open>evolve_to_time\<close> returns the status, the solver, the numerical state and the
  time it leaves behind, or the message of the exception it raises; \<open>solution_write\<close>
  returns the message of the exception it raises, if any.
\<close>

record ('q, 'sv, 'st, 'f) collaborators =
  arith :: "'f float_arith"
  solver_setup :: "('sv, 'f) solver \<Rightarrow> ('q, 'f) solution \<Rightarrow> ('sv, 'f) solver"
  solver_is_valid :: "('sv, 'f) solver \<Rightarrow> bool \<times> string"
  evolve_to_time :: "('sv, 'f) solver \<Rightarrow> ('q, 'f) solution \<Rightarrow> 'f option
                       \<Rightarrow> string + ('st \<times> ('sv, 'f) solver \<times> 'q \<times> 'f)"
  solution_is_valid :: "('q, 'f) solution \<Rightarrow> bool"
  states_is_valid :: "('q, 'f) solution \<Rightarrow> bool list"
  solution_write :: "('q, 'f) solution \<Rightarrow> write_call \<Rightarrow> string option"
  state_mF :: "'q \<Rightarrow> int"
  state_sum_F :: "'q \<Rightarrow> int \<Rightarrow> 'f"

text \<open>What lies outside the Python objects: which paths exist, the text files \<^verbatim>\<open>write_F\<close>
  opens itself, and the trace.\<close>

record ('st, 'f) world =
  path_exists :: "string \<Rightarrow> bool"
  files :: "string \<Rightarrow> 'f F_line list option"
  trace :: "('st, 'f) event list"

text \<open>The state of a run past the null check of line 298: the controller, its solver and
  its solution (both present), the local \<^verbatim>\<open>frame\<close> counter, and the world.\<close>

record ('q, 'sv, 'st, 'f) rs =
  ctl :: "('q, 'sv, 'f) controller"
  sv :: "('sv, 'f) solver"
  sol :: "('q, 'f) solution"
  frame :: int
  wld :: "('st, 'f) world"

subsection \<open>Helpers\<close>

definition emit :: "('st, 'f) event \<Rightarrow> ('q, 'sv, 'st, 'f) rs \<Rightarrow> ('q, 'sv, 'st, 'f) rs" where
  "emit e s = s\<lparr>wld := (wld s)\<lparr>trace := trace (wld s) @ [e]\<rparr>\<rparr>"

definition emits :: "('st, 'f) event list \<Rightarrow> ('q, 'sv, 'st, 'f) rs \<Rightarrow> ('q, 'sv, 'st, 'f) rs" where
  "emits es s = s\<lparr>wld := (wld s)\<lparr>trace := trace (wld s) @ es\<rparr>\<rparr>"

text \<open>Sequencing of two steps that may raise: the second runs only if the first returns.\<close>

definition and_then ::
  "('s \<Rightarrow> error option \<times> 's) \<Rightarrow> ('s \<Rightarrow> error option \<times> 's) \<Rightarrow> 's \<Rightarrow> error option \<times> 's" where
  "and_then f g s = (case f s of (Some e, s') \<Rightarrow> (Some e, s') | (None, s') \<Rightarrow> g s')"

definition ok :: "('s \<Rightarrow> 's) \<Rightarrow> 's \<Rightarrow> error option \<times> 's" where
  "ok f s = (None, f s)"

subsection \<open>Properties of the controller\<close>

text \<open>\<^verbatim>\<open>outdir_p\<close>, lines 73-76, and \<^verbatim>\<open>F_path\<close>, lines 77-80.\<close>

definition outdir_p :: "('q, 'sv, 'f) controller \<Rightarrow> string" where
  "outdir_p c = path_join (outdir c) ''_p''"

definition F_path :: "('q, 'sv, 'f) controller \<Rightarrow> string" where
  "F_path c = path_join (outdir c) (F_file_name c @ ''.txt'')"

definition is_proc_0 :: bool where
  "is_proc_0 = True"

subsection \<open>\<^verbatim>\<open>check_validity\<close>, lines 221-239\<close>

definition check_validity ::
  "('q, 'sv, 'st, 'f) collaborators \<Rightarrow> ('sv, 'f) solver option \<Rightarrow> ('q, 'f) solution \<Rightarrow> error option" where
  "check_validity K svo sl =
     (case svo of
        None \<Rightarrow> Some NoSolverSet
      | Some svr \<Rightarrow>
          if \<not> slv_is_Solver svr then Some SolverWrongType
          else case solver_is_valid K svr of
            (valid, reason) \<Rightarrow>
              if \<not> valid then Some (SolverInvalid reason)
              else if \<not> solution_is_valid K sl then Some SolutionInvalid
              else if \<not> list_all (\<lambda>b. b) (states_is_valid K sl) then Some StatesInvalid
              else None)"

subsection \<open>\<^verbatim>\<open>write_F\<close>, lines 424-434\<close>

text \<open>\<^verbatim>\<open>open(path, mode)\<close>, one \<^verbatim>\<open>write\<close>, \<^verbatim>\<open>close\<close>: mode \<^verbatim>\<open>'w'\<close> drops what the file held,
  mode \<^verbatim>\<open>'a'\<close> keeps it. Opening is taken to succeed.\<close>

definition write_line ::
  "string \<Rightarrow> file_mode \<Rightarrow> 'f F_line \<Rightarrow> (string \<Rightarrow> 'f F_line list option)
     \<Rightarrow> (string \<Rightarrow> 'f F_line list option)" where
  "write_line p m l fs =
     (case m of
        Truncate \<Rightarrow> fs(p \<mapsto> [l])
      | Append \<Rightarrow> fs(p \<mapsto> (case fs p of None \<Rightarrow> [] | Some ls \<Rightarrow> ls) @ [l]))"

definition write_F ::
  "('q, 'sv, 'st, 'f) collaborators \<Rightarrow> file_mode \<Rightarrow> ('q, 'sv, 'st, 'f) rs \<Rightarrow> error option \<times> ('q, 'sv, 'st, 'f) rs" where
  "write_F K m s =
     (case compute_F (ctl s) of
        None \<Rightarrow> (None, s)
      | Some f \<Rightarrow>
          (case f (sol_state (sol s)) of
             Inl msg \<Rightarrow> (Some (Propagated msg), emit ComputeF s)
           | Inr q' \<Rightarrow>
               let s1 = emit ComputeF (s\<lparr>sol := (sol s)\<lparr>sol_state := q'\<rparr>\<rparr>);
                   F = map (\<lambda>i. state_sum_F K q' (int i)) [0..<nat (state_mF K q')]
               in if is_proc_0 then
                    let l = (sol_t (sol s1), F); p = F_path (ctl s1)
                    in (None, emit (FileWrite p m l)
                                (s1\<lparr>wld := (wld s1)\<lparr>files := write_line p m l (files (wld s1))\<rparr>\<rparr>))
                  else (None, s1)))"

subsection \<open>\<^verbatim>\<open>run\<close>, lines 281-420\<close>

text \<open>Modelled from the spec: \<^verbatim>\<open>grid.setup_gauge_files(outdir)\<close> is defined outside this
  module; it opens one output stream per gauge, under the output directory.\<close>

definition setup_gauge_files :: "string \<Rightarrow> ('q, 'sv, 'st, 'f) rs \<Rightarrow> ('q, 'sv, 'st, 'f) rs" where
  "setup_gauge_files dir s =
     emit (SetupGaugeFiles dir) (s\<lparr>sol := (sol s)\<lparr>sol_gauge_files := sol_gauges (sol s)\<rparr>\<rparr>)"

text \<open>Modelled from the spec: \<^verbatim>\<open>FrameCounter\<close> is defined in \<^verbatim>\<open>util\<close>; \<^verbatim>\<open>set_counter(n)\<close>
  seeds the counter and \<^verbatim>\<open>increment()\<close> advances it by one.\<close>

definition set_counter :: "int \<Rightarrow> ('q, 'sv, 'st, 'f) rs \<Rightarrow> ('q, 'sv, 'st, 'f) rs" where
  "set_counter n s = s\<lparr>frame := n\<rparr>"

definition increment :: "('q, 'sv, 'st, 'f) rs \<Rightarrow> ('q, 'sv, 'st, 'f) rs" where
  "increment s = emit FrameIncrement (s\<lparr>frame := frame s + 1\<rparr>)"

text \<open>Lines 301-315: from the null check to the initial gauge values.\<close>

definition lazy_setup ::
  "('q, 'sv, 'st, 'f) collaborators \<Rightarrow> ('q, 'sv, 'st, 'f) rs \<Rightarrow> ('q, 'sv, 'st, 'f) rs" where
  "lazy_setup K s =
     (if \<not> slv_is_set_up (sv s) then
        let svr = solver_setup K (sv s) (sol s)
        in emit SolverSetup (s\<lparr>sv := svr\<lparr>slv_dt := slv_dt_initial svr\<rparr>\<rparr>)
      else s)"

definition run_entry ::
  "('q, 'sv, 'st, 'f) collaborators \<Rightarrow> ('q, 'sv, 'st, 'f) rs \<Rightarrow> error option \<times> ('q, 'sv, 'st, 'f) rs" where
  "run_entry K s =
     (let s1 = s\<lparr>ctl := (ctl s)\<lparr>start_frame := sol_start_frame (sol s)\<rparr>\<rparr>;
          s2 = (if length (sol_gauges (sol s1)) > 0
                then setup_gauge_files (outdir (ctl s1)) s1 else s1);
          s3 = set_counter (start_frame (ctl s2)) s2;
          s4 = lazy_setup K s3
      in case check_validity K (Some (sv s4)) (sol s4) of
           Some e \<Rightarrow> (Some e, s4)
         | None \<Rightarrow> (None, emit WriteGaugeValues s4))"

text \<open>Lines 318-327: the output styles.\<close>

definition output_times ::
  "('q, 'sv, 'st, 'f) collaborators \<Rightarrow> ('q, 'sv, 'st, 'f) rs \<Rightarrow> error + 'f list" where
  "output_times K s =
     (if output_style (ctl s) = 1 then
        Inr (linspace (arith K) (sol_t (sol s)) (tfinal (ctl s)) (num_output_times (ctl s) + 1))
      else if output_style (ctl s) = 2 then Inr (out_times (ctl s))
      else if output_style (ctl s) = 3 then
        ones (arith K) (num_output_times (ctl s) + 1 - start_frame (ctl s))
      else Inl (InvalidOutputStyle (output_style (ctl s))))"

text \<open>Lines 329-333: the report of an empty schedule. \<^verbatim>\<open>self.t\<close> is the solution's time, by
  \<^verbatim>\<open>__getattr__\<close>.\<close>

definition halt_report ::
  "('q, 'sv, 'st, 'f) collaborators \<Rightarrow> ('q, 'sv, 'st, 'f) rs \<Rightarrow> ('q, 'sv, 'st, 'f) rs" where
  "halt_report K s =
     (let s1 = emit (Print ''No valid output times; halting.'') s
      in if fl_eq (arith K) (sol_t (sol s1)) (tfinal (ctl s1))
         then emit (Print ''Simulation has already reached tfinal.'') s1 else s1)"

text \<open>The calls that several lines share.\<close>

definition keep_frame :: "('q, 'sv, 'st, 'f) rs \<Rightarrow> ('q, 'sv, 'st, 'f) rs" where
  "keep_frame s =
     (if keep_copy (ctl s) then s\<lparr>ctl := (ctl s)\<lparr>frames := frames (ctl s) @ [sol s]\<rparr>\<rparr> else s)"

definition do_compute_p ::
  "('q \<Rightarrow> string + 'q) \<Rightarrow> ('q, 'sv, 'st, 'f) rs \<Rightarrow> error option \<times> ('q, 'sv, 'st, 'f) rs" where
  "do_compute_p f s =
     (case f (sol_state (sol s)) of
        Inl msg \<Rightarrow> (Some (Propagated msg), emit ComputeP s)
      | Inr q' \<Rightarrow> (None, emit ComputeP (s\<lparr>sol := (sol s)\<lparr>sol_state := q'\<rparr>\<rparr>)))"

definition do_write ::
  "('q, 'sv, 'st, 'f) collaborators \<Rightarrow> (('q, 'sv, 'st, 'f) rs \<Rightarrow> write_call)
     \<Rightarrow> ('q, 'sv, 'st, 'f) rs \<Rightarrow> error option \<times> ('q, 'sv, 'st, 'f) rs" where
  "do_write K a s =
     (case solution_write K (sol s) (a s) of
        Some msg \<Rightarrow> (Some (Propagated msg), emit (SolutionWrite (a s)) s)
      | None \<Rightarrow> (None, emit (SolutionWrite (a s)) s))"

text \<open>The block under \<^verbatim>\<open>if self.compute_p is not None\<close>, lines 345-355 and 387-397.\<close>

definition derived_write ::
  "('q, 'sv, 'st, 'f) collaborators \<Rightarrow> (('q, 'sv, 'st, 'f) rs \<Rightarrow> write_call)
     \<Rightarrow> ('q, 'sv, 'st, 'f) rs \<Rightarrow> error option \<times> ('q, 'sv, 'st, 'f) rs" where
  "derived_write K a s =
     (case compute_p (ctl s) of
        None \<Rightarrow> (None, s)
      | Some f \<Rightarrow> and_then (do_compute_p f) (do_write K a) s)"

definition log_info :: "('q, 'sv, 'st, 'f) rs \<Rightarrow> ('q, 'sv, 'st, 'f) rs" where
  "log_info s = emit (LogInfo (frame s) (sol_t (sol s))) s"

text \<open>Lines 337-371: the initial frame.\<close>

definition initial_p_call :: "string \<Rightarrow> string \<Rightarrow> ('q, 'sv, 'st, 'f) rs \<Rightarrow> write_call" where
  "initial_p_call h fmt s =
     \<lparr>wr_frame = frame s, wr_path = outdir_p (ctl s),
      wr_file_prefix = Some (file_prefix_p (ctl s)),
      wr_io_handler = h, wr_file_format = fmt, wr_clobber = output_clobber (ctl s),
      wr_write_aux = False, wr_write_p = True, wr_options = output_options (ctl s)\<rparr>"

definition initial_call :: "string \<Rightarrow> string \<Rightarrow> ('q, 'sv, 'st, 'f) rs \<Rightarrow> write_call" where
  "initial_call h fmt s =
     \<lparr>wr_frame = frame s, wr_path = outdir (ctl s),
      wr_file_prefix = output_file_prefix (ctl s),
      wr_io_handler = h, wr_file_format = fmt, wr_clobber = output_clobber (ctl s),
      wr_write_aux = (write_aux_always (ctl s) \<or> write_aux_init (ctl s)),
      wr_write_p = False, wr_options = output_options (ctl s)\<rparr>"

definition initial_write ::
  "('q, 'sv, 'st, 'f) collaborators \<Rightarrow> ('q, 'sv, 'st, 'f) rs \<Rightarrow> error option \<times> ('q, 'sv, 'st, 'f) rs" where
  "initial_write K s =
     (case output_handler (ctl s) of
        None \<Rightarrow> (None, s)
      | Some h \<Rightarrow>
         (case output_format (ctl s) of
            None \<Rightarrow> (None, s)
          | Some fmt \<Rightarrow>
              if path_exists (wld s) (outdir (ctl s)) \<and> output_clobber (ctl s) = False
              then (Some RefusingToOverwrite, s)
              else and_then (derived_write K (initial_p_call h fmt))
                     (do_write K (initial_call h fmt)) s))"

definition initial_output ::
  "('q, 'sv, 'st, 'f) collaborators \<Rightarrow> ('q, 'sv, 'st, 'f) rs \<Rightarrow> error option \<times> ('q, 'sv, 'st, 'f) rs" where
  "initial_output K =
     and_then (ok keep_frame)
       (and_then (initial_write K)
          (and_then (write_F K Truncate) (ok log_info)))"

text \<open>Lines 373-413: one target time.\<close>

definition evolve_once ::
  "('q, 'sv, 'st, 'f) collaborators \<Rightarrow> 'f option \<Rightarrow> ('q, 'sv, 'st, 'f) rs
     \<Rightarrow> (error + 'st) \<times> ('q, 'sv, 'st, 'f) rs" where
  "evolve_once K target s =
     (case evolve_to_time K (sv s) (sol s) target of
        Inl msg \<Rightarrow> (Inl (Propagated msg), emit (EvolveToTime target None) s)
      | Inr (st, svr, q', t') \<Rightarrow>
          (Inr st, emit (EvolveToTime target (Some st))
                     (s\<lparr>sv := svr, sol := (sol s)\<lparr>sol_t := t', sol_state := q'\<rparr>\<rparr>)))"

text \<open>Lines 378-379, \<^verbatim>\<open>for n in xrange(self.nstepout)\<close>; the local \<^verbatim>\<open>status\<close> is \<open>None\<close> while
  it is unbound.\<close>

fun evolve_steps ::
  "('q, 'sv, 'st, 'f) collaborators \<Rightarrow> nat \<Rightarrow> 'st option \<Rightarrow> ('q, 'sv, 'st, 'f) rs
     \<Rightarrow> (error + 'st option) \<times> ('q, 'sv, 'st, 'f) rs" where
  "evolve_steps K 0 status s = (Inr status, s)"
| "evolve_steps K (Suc n) status s =
     (case evolve_once K None s of
        (Inl e, s') \<Rightarrow> (Inl e, s')
      | (Inr st, s') \<Rightarrow> evolve_steps K n (Some st) s')"

definition evolve ::
  "('q, 'sv, 'st, 'f) collaborators \<Rightarrow> 'f \<Rightarrow> 'st option \<Rightarrow> ('q, 'sv, 'st, 'f) rs
     \<Rightarrow> (error + 'st option) \<times> ('q, 'sv, 'st, 'f) rs" where
  "evolve K target status s =
     (if output_style (ctl s) < 3 then
        (case evolve_once K (Some target) s of
           (Inl e, s') \<Rightarrow> (Inl e, s')
         | (Inr st, s') \<Rightarrow> (Inr (Some st), s'))
      else evolve_steps K (nat (nstepout (ctl s))) status s)"

definition loop_p_call :: "string \<Rightarrow> string \<Rightarrow> ('q, 'sv, 'st, 'f) rs \<Rightarrow> write_call" where
  "loop_p_call h fmt s =
     \<lparr>wr_frame = frame s, wr_path = outdir (ctl s),
      wr_file_prefix = Some (file_prefix_p (ctl s)),
      wr_io_handler = h, wr_file_format = fmt, wr_clobber = output_clobber (ctl s),
      wr_write_aux = False, wr_write_p = True, wr_options = output_options (ctl s)\<rparr>"

definition loop_call :: "string \<Rightarrow> string \<Rightarrow> ('q, 'sv, 'st, 'f) rs \<Rightarrow> write_call" where
  "loop_call h fmt s =
     \<lparr>wr_frame = frame s, wr_path = outdir (ctl s),
      wr_file_prefix = output_file_prefix (ctl s),
      wr_io_handler = h, wr_file_format = fmt, wr_clobber = output_clobber (ctl s),
      wr_write_aux = write_aux_always (ctl s),
      wr_write_p = False, wr_options = output_options (ctl s)\<rparr>"

definition loop_write ::
  "('q, 'sv, 'st, 'f) collaborators \<Rightarrow> ('q, 'sv, 'st, 'f) rs \<Rightarrow> error option \<times> ('q, 'sv, 'st, 'f) rs" where
  "loop_write K s =
     (case output_handler (ctl s) of
        None \<Rightarrow> (None, s)
      | Some h \<Rightarrow>
         (case output_format (ctl s) of
            None \<Rightarrow> (None, s)
          | Some fmt \<Rightarrow>
              and_then (derived_write K (loop_p_call h fmt))
                (do_write K (loop_call h fmt)) s))"

definition flush_gauge_files :: "('q, 'sv, 'st, 'f) rs \<Rightarrow> ('q, 'sv, 'st, 'f) rs" where
  "flush_gauge_files s = emits (map GaugeFlush (sol_gauge_files (sol s))) s"

definition loop_output ::
  "('q, 'sv, 'st, 'f) collaborators \<Rightarrow> ('q, 'sv, 'st, 'f) rs \<Rightarrow> error option \<times> ('q, 'sv, 'st, 'f) rs" where
  "loop_output K =
     and_then (ok increment)
       (and_then (ok keep_frame)
          (and_then (loop_write K)
             (and_then (write_F K Append)
                (and_then (ok log_info) (ok flush_gauge_files)))))"

definition loop_body ::
  "('q, 'sv, 'st, 'f) collaborators \<Rightarrow> 'f \<Rightarrow> 'st option \<Rightarrow> ('q, 'sv, 'st, 'f) rs
     \<Rightarrow> (error + 'st option) \<times> ('q, 'sv, 'st, 'f) rs" where
  "loop_body K target status s =
     (case evolve K target status s of
        (Inl e, s') \<Rightarrow> (Inl e, s')
      | (Inr status', s') \<Rightarrow>
          (case loop_output K s' of
             (Some e, s'') \<Rightarrow> (Inl e, s'')
           | (None, s'') \<Rightarrow> (Inr status', s'')))"

text \<open>Line 373, \<^verbatim>\<open>for t in output_times[1:]\<close>.\<close>

fun run_loop ::
  "('q, 'sv, 'st, 'f) collaborators \<Rightarrow> 'f list \<Rightarrow> 'st option \<Rightarrow> ('q, 'sv, 'st, 'f) rs
     \<Rightarrow> (error + 'st option) \<times> ('q, 'sv, 'st, 'f) rs" where
  "run_loop K [] status s = (Inr status, s)"
| "run_loop K (target # targets) status s =
     (case loop_body K target status s of
        (Inl e, s') \<Rightarrow> (Inl e, s')
      | (Inr status', s') \<Rightarrow> run_loop K targets status' s')"

text \<open>Lines 415-420: closing the gauge streams, the new start frame, the result.\<close>

definition close_gauge_files :: "('q, 'sv, 'st, 'f) rs \<Rightarrow> ('q, 'sv, 'st, 'f) rs" where
  "close_gauge_files s = emits (map GaugeClose (sol_gauge_files (sol s))) s"

definition finish ::
  "'st option \<Rightarrow> ('q, 'sv, 'st, 'f) rs \<Rightarrow> (error + 'st option) \<times> ('q, 'sv, 'st, 'f) rs" where
  "finish status s =
     (let s1 = close_gauge_files s;
          s2 = s1\<lparr>sol := (sol s1)\<lparr>sol_start_frame := int (length (frames (ctl s1)))\<rparr>\<rparr>
      in case status of
           None \<Rightarrow> (Inl (UnboundLocalError ''status''), s2)
         | Some st \<Rightarrow> (Inr (Some st), s2))"

text \<open>The body of \<^verbatim>\<open>run\<close> past the null check. The result \<open>Inr None\<close> is \<^verbatim>\<open>return None\<close>.\<close>

definition run_body ::
  "('q, 'sv, 'st, 'f) collaborators \<Rightarrow> ('q, 'sv, 'st, 'f) rs
     \<Rightarrow> (error + 'st option) \<times> ('q, 'sv, 'st, 'f) rs" where
  "run_body K s =
     (case run_entry K s of
        (Some e, s1) \<Rightarrow> (Inl e, s1)
      | (None, s1) \<Rightarrow>
          (case output_times K s1 of
             Inl e \<Rightarrow> (Inl e, s1)
           | Inr ts \<Rightarrow>
               if length ts = 0 then (Inr None, halt_report K s1)
               else (case initial_output K s1 of
                       (Some e, s2) \<Rightarrow> (Inl e, s2)
                     | (None, s2) \<Rightarrow>
                         (case run_loop K (drop 1 ts) None s2 of
                            (Inl e, s3) \<Rightarrow> (Inl e, s3)
                          | (Inr status, s3) \<Rightarrow> finish status s3))))"

text \<open>\<^verbatim>\<open>run\<close>: the null check of line 298, then the body on the objects the controller refers
  to; what the body leaves in them is what the controller refers to afterwards.\<close>

definition run ::
  "('q, 'sv, 'st, 'f) collaborators \<Rightarrow> ('q, 'sv, 'f) controller \<Rightarrow> ('st, 'f) world
     \<Rightarrow> (error + 'st option) \<times> ('q, 'sv, 'f) controller \<times> ('st, 'f) world" where
  "run K c w =
     (case solver c of
        None \<Rightarrow> (Inl NoSolverOrSolution, c, w)
      | Some svr \<Rightarrow>
         (case solution c of
            None \<Rightarrow> (Inl NoSolverOrSolution, c, w)
          | Some sl \<Rightarrow>
              (case run_body K \<lparr>ctl = c, sv = svr, sol = sl, frame = 0, wld = w\<rparr> of
                 (r, s) \<Rightarrow> (r, (ctl s)\<lparr>solver := Some (sv s), solution := Some (sol s)\<rparr>, wld s))))"

subsection \<open>\<^verbatim>\<open>__init__\<close>, lines 85-200\<close>

text \<open>The defaults of a new controller; the arguments are the arithmetic and
  \<^verbatim>\<open>os.getcwd()\<close>. The literals \<^verbatim>\<open>0.0\<close> and \<^verbatim>\<open>1.0\<close> are the floats of 0 and 1.\<close>

definition init :: "'f float_arith \<Rightarrow> string \<Rightarrow> ('q, 'sv, 'f) controller" where
  "init A cwd =
     \<lparr>solver = None, solution = None, start_frame = 0, outdir = cwd @ ''/_output'',
      keep_copy = False, frames = [], write_aux_init = False, write_aux_always = False,
      output_handler = Some ''pyclaw'', output_format = Some ''ascii'',
      output_file_prefix = None, output_clobber = True, output_options = [],
      tfinal = fl_of_int A 1, output_style = 1, num_output_times = 10,
      out_times = linspace A (fl_of_int A 0) (fl_of_int A 1) (10 - 0), nstepout = 1,
      file_prefix_p = ''claw_p'', compute_p = None, compute_F = None, F_file_name = ''F''\<rparr>"

section \<open>Events and relations between the states of a run\<close>

text \<open>Classes of events: what the \<open>solution.write\<close> blocks emit, what an output point
  emits, what an output point of the loop emits before its flush, and what the loop emits.\<close>

definition write_event :: "('st, 'f) event \<Rightarrow> bool" where
  "write_event e \<longleftrightarrow> is_ComputeP e \<or> is_SolutionWrite e"

definition output_event :: "('st, 'f) event \<Rightarrow> bool" where
  "output_event e \<longleftrightarrow>
     is_ComputeP e \<or> is_SolutionWrite e \<or> is_ComputeF e \<or> is_FileWrite e \<or> is_LogInfo e"

definition pre_flush_event :: "('st, 'f) event \<Rightarrow> bool" where
  "pre_flush_event e \<longleftrightarrow> output_event e \<or> is_FrameIncrement e"

definition loop_event :: "('st, 'f) event \<Rightarrow> bool" where
  "loop_event e \<longleftrightarrow>
     output_event e \<or> is_EvolveToTime e \<or> is_FrameIncrement e \<or> is_GaugeFlush e"

text \<open>\<open>steps P s s'\<close>: from \<open>s\<close> to \<open>s'\<close> the trace has grown by events that all satisfy
  \<open>P\<close>, while the configuration of the controller (all but its retained frames), the gauge
  streams and the existing paths are the same, and so are the files unless one of the events
  is a write to a file.\<close>

definition steps ::
  "(('st, 'f) event \<Rightarrow> bool) \<Rightarrow> ('q, 'sv, 'st, 'f) rs \<Rightarrow> ('q, 'sv, 'st, 'f) rs \<Rightarrow> bool" where
  "steps P s s' \<longleftrightarrow>
     (\<exists>new. trace (wld s') = trace (wld s) @ new \<and> list_all P new \<and>
        (list_all (\<lambda>e. \<not> is_FileWrite e) new \<longrightarrow> files (wld s') = files (wld s))) \<and>
     (ctl s')\<lparr>frames := []\<rparr> = (ctl s)\<lparr>frames := []\<rparr> \<and>
     sol_gauge_files (sol s') = sol_gauge_files (sol s) \<and>
     path_exists (wld s') = path_exists (wld s)"

text \<open>The errors that come from a collaborator.\<close>

definition collaborator_error :: "error \<Rightarrow> bool" where
  "collaborator_error e = (case e of Propagated m \<Rightarrow> True | _ \<Rightarrow> False)"

text \<open>The results with which \<open>run\<close> has left its loop by exhausting the schedule: a status,
  or the unbound local of line 420.\<close>

definition loop_exhausted :: "error + 'st option \<Rightarrow> bool" where
  "loop_exhausted r =
     (case r of
        Inr (Some st) \<Rightarrow> True
      | Inr None \<Rightarrow> False
      | Inl e \<Rightarrow> e = UnboundLocalError ''status'')"


text \<open>The frame and the path of every \<open>solution.write\<close> call of derived quantities
  (\<open>write_p = True\<close>) in a list of events.\<close>

fun derived_write_paths :: "('st, 'f) event list \<Rightarrow> (int \<times> string) list" where
  "derived_write_paths [] = []"
| "derived_write_paths (SolutionWrite a # es) =
     (if wr_write_p a then (wr_frame a, wr_path a) # derived_write_paths es
      else derived_write_paths es)"
| "derived_write_paths (e # es) = derived_write_paths es"

section \<open>Concrete configurations\<close>

text \<open>Exact arithmetic on the real numbers.\<close>

definition exact_arith :: "real float_arith" where
  "exact_arith =
     \<lparr>fl_of_int = real_of_int, fl_add = (+), fl_sub = (-), fl_mul = (*), fl_div = (/),
      fl_eq = (=)\<rparr>"

text \<open>A solver that is valid and always succeeds: it moves the solution to the target time,
  or one step \<open>dt\<close> further when there is none, counts its calls in the numerical state and
  reports the time reached as its status. The functionals are the constant vector
  \<open>[1, 2]\<close>.\<close>

definition demo_collaborators :: "(nat, unit, real, real) collaborators" where
  "demo_collaborators =
     \<lparr>arith = exact_arith,
      solver_setup = (\<lambda>svr sl. svr\<lparr>slv_is_set_up := True\<rparr>),
      solver_is_valid = (\<lambda>svr. (True, [])),
      evolve_to_time = (\<lambda>svr sl target.
         let t' = (case target of Some x \<Rightarrow> x | None \<Rightarrow> sol_t sl + slv_dt svr)
         in Inr (t', svr, Suc (sol_state sl), t')),
      solution_is_valid = (\<lambda>sl. True),
      states_is_valid = (\<lambda>sl. [True]),
      solution_write = (\<lambda>sl a. None),
      state_mF = (\<lambda>q. 2),
      state_sum_F = (\<lambda>q i. if i = 0 then 1 else 2)\<rparr>"

definition demo_solver :: "(unit, real) solver" where
  "demo_solver =
     \<lparr>slv_is_set_up = False, slv_dt = 0, slv_dt_initial = 1 / 10, slv_is_Solver = True,
      slv_core = ()\<rparr>"

definition demo_solution :: "(nat, real) solution" where
  "demo_solution =
     \<lparr>sol_t = 0, sol_start_frame = 0, sol_gauges = [], sol_gauge_files = [], sol_state = 0\<rparr>"

definition demo_world :: "(real, real) world" where
  "demo_world = \<lparr>path_exists = (\<lambda>p. False), files = (\<lambda>p. None), trace = []\<rparr>"

text \<open>A default controller under exact arithmetic in the directory \<^verbatim>\<open>/w\<close> with the solver and the solution set.\<close>

definition demo_controller :: "(nat, unit, real) controller" where
  "demo_controller = (init exact_arith ''/w'')\<lparr>solver := Some demo_solver, solution := Some demo_solution\<rparr>"


text \<open>Collaborators whose solution is not valid, and collaborators whose evolution call
  raises.\<close>

definition invalid_solution_collaborators :: "(nat, unit, real, real) collaborators" where
  "invalid_solution_collaborators = demo_collaborators\<lparr>solution_is_valid := (\<lambda>sl. False)\<rparr>"

definition failing_collaborators :: "(nat, unit, real, real) collaborators" where
  "failing_collaborators =
     demo_collaborators\<lparr>evolve_to_time := (\<lambda>svr sl target. Inl ''evolution failed'')\<rparr>"

text \<open>A grid with one gauge, and a schedule of two output points.\<close>

definition gauge_solution :: "(nat, real) solution" where
  "gauge_solution = demo_solution\<lparr>sol_gauges := [7]\<rparr>"

definition gauge_controller :: "(nat, unit, real) controller" where
  "gauge_controller = demo_controller\<lparr>num_output_times := 1, solution := Some gauge_solution\<rparr>"

text \<open>A resumed run: the solution stands at time 2 with start frame 2, and the functional
  log already holds the lines of the frames 0 and 1.\<close>

definition resumed_solution :: "(nat, real) solution" where
  "resumed_solution = demo_solution\<lparr>sol_t := 2, sol_start_frame := 2\<rparr>"

definition resumed_controller :: "(nat, unit, real) controller" where
  "resumed_controller =
     demo_controller\<lparr>compute_F := Some Inr, tfinal := 3, num_output_times := 1,
                      solution := Some resumed_solution\<rparr>"

definition resumed_world :: "(real, real) world" where
  "resumed_world =
     demo_world\<lparr>files := (\<lambda>p. if p = ''/w/_output/F.txt''
                                 then Some [(0, [1, 2]), (1, [1, 2])] else None)\<rparr>"


text \<open>A controller with a derived-quantity function and a schedule of two output points.\<close>

definition derived_controller :: "(nat, unit, real) controller" where
  "derived_controller = demo_controller\<lparr>compute_p := Some Inr, num_output_times := 1\<rparr>"

section \<open>Properties\<close>

subsection \<open>Sequencing\<close>

lemma steps_refl: "steps P s s"
  by (simp add: steps_def)

lemma steps_trans [trans]:
  assumes "steps P s s'" and "steps P s' s''"
  shows "steps P s s''"
proof -
  from assms(1) obtain n1 where n1: "trace (wld s') = trace (wld s) @ n1" "list_all P n1"
    "list_all (\<lambda>e. \<not> is_FileWrite e) n1 \<longrightarrow> files (wld s') = files (wld s)"
    unfolding steps_def by blast
  from assms(2) obtain n2 where n2: "trace (wld s'') = trace (wld s') @ n2" "list_all P n2"
    "list_all (\<lambda>e. \<not> is_FileWrite e) n2 \<longrightarrow> files (wld s'') = files (wld s')"
    unfolding steps_def by blast
  have "trace (wld s'') = trace (wld s) @ (n1 @ n2)" "list_all P (n1 @ n2)"
    "list_all (\<lambda>e. \<not> is_FileWrite e) (n1 @ n2) \<longrightarrow> files (wld s'') = files (wld s)"
    using n1 n2 by simp_all
  then have "\<exists>new. trace (wld s'') = trace (wld s) @ new \<and> list_all P new
               \<and> (list_all (\<lambda>e. \<not> is_FileWrite e) new \<longrightarrow> files (wld s'') = files (wld s))"
    by blast
  moreover have "(ctl s'')\<lparr>frames := []\<rparr> = (ctl s)\<lparr>frames := []\<rparr>"
    using assms unfolding steps_def by simp
  moreover have "sol_gauge_files (sol s'') = sol_gauge_files (sol s)"
    using assms unfolding steps_def by simp
  moreover have "path_exists (wld s'') = path_exists (wld s)"
    using assms unfolding steps_def by simp
  ultimately show ?thesis unfolding steps_def by blast
qed

lemma steps_mono: "steps P s s' \<Longrightarrow> (\<And>e. P e \<Longrightarrow> Q e) \<Longrightarrow> steps Q s s'"
  unfolding steps_def by (auto simp: list_all_iff)

lemma steps_filter:
  "steps P s s' \<Longrightarrow> (\<And>e. P e \<Longrightarrow> \<not> Q e) \<Longrightarrow>
     filter Q (trace (wld s')) = filter Q (trace (wld s))"
  unfolding steps_def by (auto simp: list_all_iff)

lemma steps_files:
  "steps P s s' \<Longrightarrow> (\<And>e. P e \<Longrightarrow> \<not> is_FileWrite e) \<Longrightarrow> files (wld s') = files (wld s)"
  unfolding steps_def by (auto simp: list_all_iff)

lemma steps_emit: "P e \<Longrightarrow> steps P s (emit e s)"
  by (simp add: steps_def emit_def)

lemma steps_emits: "list_all P es \<Longrightarrow> steps P s (emits es s)"
  by (simp add: steps_def emits_def)

lemma and_then_steps:
  assumes f: "\<And>s r s'. f s = (r, s') \<Longrightarrow> steps P s s'"
    and g: "\<And>s r s'. g s = (r, s') \<Longrightarrow> steps P s s'"
    and "and_then f g s = (r, s')"
  shows "steps P s s'"
proof (cases "f s")
  case (Pair r1 s1)
  note fs = this
  show ?thesis
  proof (cases r1)
    case None
    with fs assms(3) have "g s1 = (r, s')" by (simp add: and_then_def)
    with f[OF fs] g show ?thesis by (blast intro: steps_trans)
  next
    case (Some e)
    with fs assms(3) have "s' = s1" by (simp add: and_then_def)
    with f[OF fs] show ?thesis by simp
  qed
qed

lemma ok_steps: "steps P s (h s) \<Longrightarrow> ok h s = (r, s') \<Longrightarrow> steps P s s'"
  by (auto simp: ok_def)

lemma and_then_error:
  assumes "\<And>s e s'. f s = (Some e, s') \<Longrightarrow> Q e"
    and "\<And>s e s'. g s = (Some e, s') \<Longrightarrow> Q e"
    and "and_then f g s = (Some e, s')"
  shows "Q e"
  using assms(3) unfolding and_then_def
  by (cases "f s") (auto split: option.splits intro: assms(1) assms(2))

lemma and_then_None:
  "and_then f g s = (None, s') \<longleftrightarrow> (\<exists>s1. f s = (None, s1) \<and> g s1 = (None, s'))"
  unfolding and_then_def by (cases "f s") (auto split: option.splits)

lemma ok_None: "ok h s = (r, s') \<longleftrightarrow> r = None \<and> s' = h s"
  by (auto simp: ok_def)

subsection \<open>What each call emits and leaves unchanged\<close>

lemma keep_frame_steps: "steps P s (keep_frame s)"
  by (simp add: steps_def keep_frame_def)

lemma log_info_steps: "steps output_event s (log_info s)"
  by (simp add: log_info_def steps_emit output_event_def)

lemma increment_steps: "steps loop_event s (increment s)"
  by (simp add: increment_def steps_def emit_def loop_event_def)

lemma flush_gauge_files_steps: "steps loop_event s (flush_gauge_files s)"
  by (simp add: flush_gauge_files_def steps_def emits_def loop_event_def list_all_iff)

lemma write_event_output: "write_event e \<Longrightarrow> output_event e"
  by (auto simp: write_event_def output_event_def)

lemma write_event_not: "write_event e \<Longrightarrow> \<not> is_FileWrite e"
  by (cases e; simp add: write_event_def)

lemma do_compute_p_steps: "do_compute_p f s = (r, s') \<Longrightarrow> steps write_event s s'"
  by (auto simp: do_compute_p_def steps_def emit_def write_event_def split: sum.splits)

lemma do_write_steps: "do_write K a s = (r, s') \<Longrightarrow> steps write_event s s'"
  by (auto simp: do_write_def steps_def emit_def write_event_def split: option.splits)

lemma write_F_steps: "write_F K m s = (r, s') \<Longrightarrow> steps output_event s s'"
  by (auto simp: write_F_def steps_def emit_def output_event_def Let_def is_proc_0_def
           split: option.splits sum.splits)

lemma derived_write_steps: "derived_write K a s = (r, s') \<Longrightarrow> steps write_event s s'"
  unfolding derived_write_def
  by (cases "compute_p (ctl s)")
     (auto simp: steps_refl intro: and_then_steps[OF do_compute_p_steps do_write_steps])

lemma initial_write_steps: "initial_write K s = (r, s') \<Longrightarrow> steps write_event s s'"
  unfolding initial_write_def
  by (auto simp: steps_refl split: option.splits if_splits
           intro: and_then_steps[OF derived_write_steps do_write_steps])

lemma loop_write_steps: "loop_write K s = (r, s') \<Longrightarrow> steps write_event s s'"
  unfolding loop_write_def
  by (auto simp: steps_refl split: option.splits if_splits
           intro: and_then_steps[OF derived_write_steps do_write_steps])

lemma output_loop_event: "output_event e \<Longrightarrow> loop_event e"
  by (simp add: loop_event_def)

lemma ok_keep_frame_steps: "ok keep_frame s = (r, s') \<Longrightarrow> steps P s s'"
  by (simp add: ok_None keep_frame_steps)

lemma ok_log_info_steps: "ok log_info s = (r, s') \<Longrightarrow> steps output_event s s'"
  by (simp add: ok_None log_info_steps)

lemma ok_increment_steps: "ok increment s = (r, s') \<Longrightarrow> steps loop_event s s'"
  by (simp add: ok_None increment_steps)

lemma ok_flush_steps: "ok flush_gauge_files s = (r, s') \<Longrightarrow> steps loop_event s s'"
  by (simp add: ok_None flush_gauge_files_steps)

lemma initial_output_steps: "initial_output K s = (r, s') \<Longrightarrow> steps output_event s s'"
  unfolding initial_output_def
  by (rule and_then_steps[OF ok_keep_frame_steps
        and_then_steps[OF steps_mono[OF initial_write_steps write_event_output]
          and_then_steps[OF write_F_steps ok_log_info_steps]]])

lemma loop_output_steps: "loop_output K s = (r, s') \<Longrightarrow> steps loop_event s s'"
  unfolding loop_output_def
  by (rule and_then_steps[OF ok_increment_steps
        and_then_steps[OF ok_keep_frame_steps
          and_then_steps[OF steps_mono[OF loop_write_steps
                                 output_loop_event[OF write_event_output]]
            and_then_steps[OF steps_mono[OF write_F_steps output_loop_event]
              and_then_steps[OF steps_mono[OF ok_log_info_steps output_loop_event]
                ok_flush_steps]]]]])

lemma evolve_once_steps: "evolve_once K tg s = (r, s') \<Longrightarrow> steps is_EvolveToTime s s'"
  by (auto simp: evolve_once_def steps_def emit_def split: sum.splits)

lemma evolve_steps_steps: "evolve_steps K n st s = (r, s') \<Longrightarrow> steps is_EvolveToTime s s'"
proof (induction n arbitrary: st s)
  case 0
  then show ?case by (simp add: steps_refl)
next
  case (Suc n)
  show ?case
  proof (cases "evolve_once K None s")
    case (Pair r1 s1)
    then have s1: "steps is_EvolveToTime s s1" by (rule evolve_once_steps)
    show ?thesis
    proof (cases r1)
      case (Inl e)
      with Pair Suc.prems s1 show ?thesis by simp
    next
      case (Inr x)
      with Pair Suc.prems have "evolve_steps K n (Some x) s1 = (r, s')" by simp
      then have "steps is_EvolveToTime s1 s'" by (rule Suc.IH)
      with s1 show ?thesis by (rule steps_trans)
    qed
  qed
qed

lemma evolve_only: "evolve K tg st s = (r, s') \<Longrightarrow> steps is_EvolveToTime s s'"
  unfolding evolve_def
  by (auto split: if_splits prod.splits sum.splits
           dest: evolve_once_steps evolve_steps_steps)

lemma evolve_steps': "evolve K tg st s = (r, s') \<Longrightarrow> steps loop_event s s'"
  by (erule steps_mono[OF evolve_only]) (simp add: loop_event_def)

lemma loop_body_steps: "loop_body K tg st s = (r, s') \<Longrightarrow> steps loop_event s s'"
  unfolding loop_body_def
  by (auto split: prod.splits sum.splits option.splits
           dest: evolve_steps' loop_output_steps intro: steps_trans)

lemma run_loop_steps: "run_loop K tgs st s = (r, s') \<Longrightarrow> steps loop_event s s'"
proof (induction tgs arbitrary: st s)
  case Nil
  then show ?case by (simp add: steps_refl)
next
  case (Cons tg tgs)
  show ?case
  proof (cases "loop_body K tg st s")
    case (Pair r1 s1)
    then have s1: "steps loop_event s s1" by (rule loop_body_steps)
    show ?thesis
    proof (cases r1)
      case (Inl e)
      with Pair Cons.prems s1 show ?thesis by simp
    next
      case (Inr x)
      with Pair Cons.prems have "run_loop K tgs x s1 = (r, s')" by simp
      then have "steps loop_event s1 s'" by (rule Cons.IH)
      with s1 show ?thesis by (rule steps_trans)
    qed
  qed
qed

subsection \<open>The linear schedule\<close>

lemma exact_arith_simps:
  "fl_of_int exact_arith n = real_of_int n"
  "fl_add exact_arith a b = a + b" "fl_sub exact_arith a b = a - b"
  "fl_mul exact_arith a b = a * b" "fl_div exact_arith a b = a / b"
  "fl_eq exact_arith a b \<longleftrightarrow> a = b"
  by (simp_all add: exact_arith_def)




lemma linspace_empty: "num \<le> 0 \<Longrightarrow> linspace A start stop num = []"
  by (simp add: linspace_def)

lemma linspace_0_1_11:
  "linspace exact_arith 0 1 11 = [0, 1/10, 2/10, 3/10, 4/10, 5/10, 6/10, 7/10, 8/10, 9/10, 1]"
  by (simp add: linspace_def Let_def upt_rec exact_arith_simps)

lemma linspace_0_1_2: "linspace exact_arith 0 1 2 = [0, 1]"
  by (simp add: linspace_def Let_def upt_rec exact_arith_simps)

lemma linspace_2_3_2: "linspace exact_arith 2 3 2 = [2, 3]"
  by (simp add: linspace_def Let_def upt_rec exact_arith_simps)




subsection \<open>The entry of a run and the empty schedule\<close>

lemma run_entry_result:
  assumes "run_entry K s = (r, s1)"
  shows "ctl s1 = (ctl s)\<lparr>start_frame := sol_start_frame (sol s)\<rparr>"
    and "frame s1 = sol_start_frame (sol s)"
    and "files (wld s1) = files (wld s)"
    and "path_exists (wld s1) = path_exists (wld s)"
    and "sol_t (sol s1) = sol_t (sol s)"
    and "sol_gauge_files (sol s1)
           = (if sol_gauges (sol s) \<noteq> [] then sol_gauges (sol s) else sol_gauge_files (sol s))"
    and "trace (wld s1) = trace (wld s)
           @ (if sol_gauges (sol s) \<noteq> [] then [SetupGaugeFiles (outdir (ctl s))] else [])
           @ (if \<not> slv_is_set_up (sv s) then [SolverSetup] else [])
           @ (if r = None then [WriteGaugeValues] else [])"
  using assms
  by (auto simp: run_entry_def Let_def setup_gauge_files_def set_counter_def lazy_setup_def
                 emit_def split: option.splits if_splits)

lemma run_entry_error:
  assumes "run_entry K s = (Some e, s1)"
  shows "e = SolverWrongType \<or> (\<exists>reason. e = SolverInvalid reason)
           \<or> e = SolutionInvalid \<or> e = StatesInvalid"
  using assms
  by (auto simp: run_entry_def Let_def check_validity_def split: option.splits if_splits prod.splits)

lemma halt_report_result:
  "ctl (halt_report K s) = ctl s"
  "files (wld (halt_report K s)) = files (wld s)"
  "sol (halt_report K s) = sol s"
  "frame (halt_report K s) = frame s"
  "trace (wld (halt_report K s)) = trace (wld s)
     @ Print ''No valid output times; halting.''
     # (if fl_eq (arith K) (sol_t (sol s)) (tfinal (ctl s))
        then [Print ''Simulation has already reached tfinal.''] else [])"
  by (simp_all add: halt_report_def Let_def emit_def)

lemma run_unfold:
  assumes "solver c = Some svr" and "solution c = Some sl"
  shows "run K c w =
           (case run_body K \<lparr>ctl = c, sv = svr, sol = sl, frame = 0, wld = w\<rparr> of
              (r, s) \<Rightarrow> (r, (ctl s)\<lparr>solver := Some (sv s), solution := Some (sol s)\<rparr>, wld s))"
  using assms by (simp add: run_def)

text \<open>
  C2. When the entry of the run succeeds and the schedule it computes is empty, \<open>run\<close>
  returns \<open>None\<close> without raising; it prints the halting message, followed by the message
  that the final time has been reached exactly when the solution's time equals \<open>tfinal\<close>
  (by the comparison \<^verbatim>\<open>==\<close> of the floats);
  it emits no output event (derived quantities, \<open>solution.write\<close>, functionals, the
  functional log, the progress line), no evolution, no frame increment and no flush; the
  retained frames and the files are what they were, and the frame counter stands at the
  solution's start frame.
\<close>

theorem empty_schedule_halts:
  assumes "solver c = Some svr" and "solution c = Some sl"
    and "run_entry K \<lparr>ctl = c, sv = svr, sol = sl, frame = 0, wld = w\<rparr> = (None, s1)"
    and "output_times K s1 = Inr []"
  shows "run_body K \<lparr>ctl = c, sv = svr, sol = sl, frame = 0, wld = w\<rparr>
           = (Inr None, halt_report K s1)
       \<and> fst (run K c w) = Inr None
       \<and> trace (snd (snd (run K c w))) = trace (wld s1)
           @ Print ''No valid output times; halting.''
           # (if fl_eq (arith K) (sol_t sl) (tfinal c)
              then [Print ''Simulation has already reached tfinal.''] else [])
       \<and> filter loop_event (trace (snd (snd (run K c w)))) = filter loop_event (trace w)
       \<and> frames (fst (snd (run K c w))) = frames c
       \<and> files (snd (snd (run K c w))) = files w
       \<and> frame (halt_report K s1) = sol_start_frame sl"
proof -
  let ?s = "\<lparr>ctl = c, sv = svr, sol = sl, frame = 0, wld = w\<rparr>"
  note e = run_entry_result[OF assms(3)]
  have body: "run_body K ?s = (Inr None, halt_report K s1)"
    using assms(3,4) by (simp add: run_body_def)
  then have run: "run K c w = (Inr None,
       (ctl (halt_report K s1))\<lparr>solver := Some (sv (halt_report K s1)),
                               solution := Some (sol (halt_report K s1))\<rparr>,
       wld (halt_report K s1))"
    using assms(1,2) by (simp add: run_unfold)
  have tr: "trace (wld (halt_report K s1)) = trace (wld s1)
           @ Print ''No valid output times; halting.''
           # (if fl_eq (arith K) (sol_t sl) (tfinal c)
              then [Print ''Simulation has already reached tfinal.''] else [])"
    using e(1,5) by (simp add: halt_report_result)
  have quiet: "filter loop_event (trace (wld (halt_report K s1))) = filter loop_event (trace w)"
    unfolding tr e(7) by (simp add: loop_event_def output_event_def)
  show ?thesis
    using body run tr quiet e(1,2,3) by (simp add: halt_report_result)
qed

lemmas demo_defs = demo_collaborators_def demo_solver_def demo_solution_def demo_world_def
  demo_controller_def init_def exact_arith_simps

lemmas entry_defs = run_entry_def setup_gauge_files_def set_counter_def lazy_setup_def
  check_validity_def emit_def Let_def

theorem empty_schedule_halts_witness:
  "fst (run demo_collaborators (demo_controller\<lparr>num_output_times := - 1\<rparr>) demo_world) = Inr None
   \<and> trace (snd (snd (run demo_collaborators (demo_controller\<lparr>num_output_times := - 1\<rparr>)
                         demo_world)))
       = [SolverSetup, WriteGaugeValues, Print ''No valid output times; halting.'']"
proof -
  let ?c = "demo_controller\<lparr>num_output_times := - 1\<rparr>"
  let ?s = "\<lparr>ctl = ?c, sv = demo_solver, sol = demo_solution, frame = 0, wld = demo_world\<rparr>"
  let ?s1 = "snd (run_entry demo_collaborators ?s)"
  have h1: "solver ?c = Some demo_solver" and h2: "solution ?c = Some demo_solution"
    by (simp_all add: demo_controller_def)
  have h3: "run_entry demo_collaborators ?s = (None, ?s1)"
    by (simp add: prod_eq_iff entry_defs demo_defs)
  have h4: "output_times demo_collaborators ?s1 = Inr []"
    by (simp add: output_times_def linspace_def entry_defs demo_defs)
  have tr: "trace (wld ?s1) = [SolverSetup, WriteGaugeValues]"
    by (simp add: entry_defs demo_defs)
  have ne: "\<not> fl_eq (arith demo_collaborators) (sol_t demo_solution) (tfinal ?c)"
    by (simp add: demo_defs)
  show ?thesis
    using empty_schedule_halts[OF h1 h2 h3 h4] tr ne by simp
qed

subsection \<open>The initial frame\<close>

lemma initial_output_refuses:
  assumes "output_handler (ctl s) = Some h" and "output_format (ctl s) = Some fmt"
    and "path_exists (wld s) (outdir (ctl s))" and "\<not> output_clobber (ctl s)"
  shows "initial_output K s = (Some RefusingToOverwrite, keep_frame s)"
  using assms
  by (simp add: initial_output_def and_then_def ok_def initial_write_def keep_frame_def)

lemma initial_write_error:
  assumes "initial_write K s = (Some e, s')"
  shows "e = RefusingToOverwrite \<and> output_handler (ctl s) \<noteq> None \<and> output_format (ctl s) \<noteq> None
         \<or> (\<exists>m. e = Propagated m)"
  using assms
  by (auto simp: initial_write_def and_then_def derived_write_def do_compute_p_def do_write_def
           split: option.splits if_splits prod.splits sum.splits)

lemma write_F_error: "write_F K m s = (Some e, s') \<Longrightarrow> \<exists>msg. e = Propagated msg"
  by (auto simp: write_F_def Let_def split: option.splits sum.splits if_splits)

lemma initial_output_error:
  assumes "initial_output K s = (Some e, s')"
  shows "e = RefusingToOverwrite \<and> output_handler (ctl s) \<noteq> None \<and> output_format (ctl s) \<noteq> None
         \<or> (\<exists>m. e = Propagated m)"
proof -
  have k: "ctl (keep_frame s) = (ctl s)\<lparr>frames := frames (ctl (keep_frame s))\<rparr>"
    by (simp add: keep_frame_def)
  from assms consider
      s1 where "initial_write K (keep_frame s) = (Some e, s1)"
    | s1 s2 where "write_F K Truncate s1 = (Some e, s2)"
    by (auto simp: initial_output_def and_then_def ok_def split: prod.splits option.splits)
  then show ?thesis
  proof cases
    case 1
    from initial_write_error[OF this] show ?thesis
      by (auto simp: keep_frame_def split: if_splits)
  next
    case 2
    then show ?thesis by (auto dest: write_F_error)
  qed
qed

subsection \<open>What the loop can raise\<close>

lemma ok_error: "ok h s = (Some e, s') \<Longrightarrow> Q e"
  by (simp add: ok_def)

lemma do_compute_p_error: "do_compute_p f s = (Some e, s') \<Longrightarrow> collaborator_error e"
  by (auto simp: do_compute_p_def collaborator_error_def split: sum.splits)

lemma do_write_error: "do_write K a s = (Some e, s') \<Longrightarrow> collaborator_error e"
  by (auto simp: do_write_def collaborator_error_def split: option.splits)

lemma write_F_collaborator_error: "write_F K m s = (Some e, s') \<Longrightarrow> collaborator_error e"
  by (auto simp: collaborator_error_def dest: write_F_error)

lemma derived_write_error: "derived_write K a s = (Some e, s') \<Longrightarrow> collaborator_error e"
  unfolding derived_write_def
  by (cases "compute_p (ctl s)")
     (auto intro: and_then_error[OF do_compute_p_error do_write_error])

lemma loop_write_error: "loop_write K s = (Some e, s') \<Longrightarrow> collaborator_error e"
  unfolding loop_write_def
  by (auto split: option.splits intro: and_then_error[OF derived_write_error do_write_error])

lemma loop_output_error: "loop_output K s = (Some e, s') \<Longrightarrow> collaborator_error e"
  unfolding loop_output_def
  by (rule and_then_error[OF ok_error
        and_then_error[OF ok_error
          and_then_error[OF loop_write_error
            and_then_error[OF write_F_collaborator_error
              and_then_error[OF ok_error ok_error]]]]])

lemma evolve_once_error: "evolve_once K tg s = (Inl e, s') \<Longrightarrow> collaborator_error e"
  by (auto simp: evolve_once_def collaborator_error_def split: sum.splits)

lemma evolve_steps_error: "evolve_steps K n st s = (Inl e, s') \<Longrightarrow> collaborator_error e"
  by (induction n arbitrary: st s)
     (auto split: prod.splits sum.splits dest: evolve_once_error)

lemma evolve_error: "evolve K tg st s = (Inl e, s') \<Longrightarrow> collaborator_error e"
  unfolding evolve_def
  by (auto split: if_splits prod.splits sum.splits dest: evolve_once_error evolve_steps_error)

lemma loop_body_error: "loop_body K tg st s = (Inl e, s') \<Longrightarrow> collaborator_error e"
  unfolding loop_body_def
  by (auto split: prod.splits sum.splits option.splits dest: evolve_error loop_output_error)

lemma run_loop_error: "run_loop K tgs st s = (Inl e, s') \<Longrightarrow> collaborator_error e"
  by (induction tgs arbitrary: st s)
     (auto split: prod.splits sum.splits dest: loop_body_error)

lemma finish_result:
  "fst (finish st s) = (case st of None \<Rightarrow> Inl (UnboundLocalError ''status'') | Some x \<Rightarrow> Inr (Some x))"
  "trace (wld (snd (finish st s))) = trace (wld s) @ map GaugeClose (sol_gauge_files (sol s))"
  "ctl (snd (finish st s)) = ctl s"
  "files (wld (snd (finish st s))) = files (wld s)"
  "sol_start_frame (sol (snd (finish st s))) = int (length (frames (ctl s)))"
  by (simp_all add: finish_def Let_def close_gauge_files_def emits_def split: option.splits)

text \<open>Every way in which the body of \<open>run\<close> raises.\<close>

lemma run_body_error:
  assumes "run_body K s = (Inl e, s')"
  shows "e = SolverWrongType \<or> (\<exists>reason. e = SolverInvalid reason)
           \<or> e = SolutionInvalid \<or> e = StatesInvalid
         \<or> (\<exists>n. e = InvalidOutputStyle n) \<or> e = NegativeDimensions
         \<or> e = RefusingToOverwrite \<and> output_handler (ctl s) \<noteq> None
             \<and> output_format (ctl s) \<noteq> None
         \<or> collaborator_error e
         \<or> e = UnboundLocalError ''status''"
proof (cases "run_entry K s")
  case (Pair r1 s1)
  note entry = this
  note c1 = run_entry_result(1)[OF entry]
  show ?thesis
  proof (cases r1)
    case (Some e1)
    with entry assms have "e = e1" by (simp add: run_body_def)
    with run_entry_error[of K s e1 s1] entry Some show ?thesis by blast
  next
    case None
    show ?thesis
    proof (cases "output_times K s1")
      case (Inl e1)
      with entry None assms have "e = e1" by (simp add: run_body_def)
      with Inl show ?thesis
        by (auto simp: output_times_def ones_def split: if_splits)
    next
      case (Inr ts)
      show ?thesis
      proof (cases "initial_output K s1")
        case (Pair r2 s2)
        note init = this
        show ?thesis
        proof (cases r2)
          case (Some e2)
          with entry None Inr init assms have "e = e2"
            by (auto simp: run_body_def split: if_splits)
          with initial_output_error[of K s1 e2 s2] init Some c1 show ?thesis
            by (auto simp: collaborator_error_def)
        next
          case None2: None
          show ?thesis
          proof (cases "run_loop K (drop 1 ts) None s2")
            case (Pair r3 s3)
            show ?thesis
            proof (cases r3)
              case (Inl e3)
              with entry None Inr init None2 Pair assms have "e = e3"
                by (auto simp: run_body_def split: if_splits)
              with run_loop_error[of K "drop 1 ts" None s2 e3 s3] Pair Inl show ?thesis
                by simp
            next
              case (Inr st)
              with entry None \<open>output_times K s1 = Inr ts\<close> init None2 Pair assms
              have "fst (finish st s3) = Inl e"
                by (auto simp: run_body_def split: if_splits)
              then show ?thesis
                by (auto simp: finish_result split: option.splits)
            qed
          qed
        qed
      qed
    qed
  qed
qed

subsection \<open>The protection of existing output\<close>

lemma keep_frame_result:
  "trace (wld (keep_frame s)) = trace (wld s)"
  "files (wld (keep_frame s)) = files (wld s)"
  "frames (ctl (keep_frame s)) = frames (ctl s) @ (if keep_copy (ctl s) then [sol s] else [])"
  "sv (keep_frame s) = sv s" "sol (keep_frame s) = sol s"
  by (simp_all add: keep_frame_def)

text \<open>
  C3. When the entry of the run succeeds and the schedule is not empty, and the
  output handler and format are set, the output directory exists and \<open>output_clobber\<close> is
  off, \<open>run\<close> raises the refusal to overwrite before any \<open>solution.write\<close>, derived
  quantity, functional-log write, evolution or frame increment: after the entry (which has
  already opened the gauge streams under the output directory when the grid has gauges, set
  the solver up, and written the initial gauge values) it emits nothing, leaves the files
  as they were and has only retained the initial frame if \<open>keep_copy\<close> is on. When the
  handler or the format is \<open>None\<close>, \<open>run\<close> never raises that error.
\<close>

theorem refuses_to_overwrite:
  assumes "solver c = Some svr" and "solution c = Some sl"
    and "run_entry K \<lparr>ctl = c, sv = svr, sol = sl, frame = 0, wld = w\<rparr> = (None, s1)"
    and "output_times K s1 = Inr ts" and "ts \<noteq> []"
  shows "(output_handler c = Some h \<and> output_format c = Some fmt
            \<and> path_exists w (outdir c) \<and> \<not> output_clobber c \<longrightarrow>
          fst (run K c w) = Inl RefusingToOverwrite
          \<and> trace (snd (snd (run K c w))) = trace (wld s1)
          \<and> filter loop_event (trace (snd (snd (run K c w)))) = filter loop_event (trace w)
          \<and> files (snd (snd (run K c w))) = files w
          \<and> frames (fst (snd (run K c w)))
               = frames c @ (if keep_copy c then [sol s1] else []))
       \<and> (output_handler c = None \<or> output_format c = None \<longrightarrow>
            fst (run K c w) \<noteq> Inl RefusingToOverwrite)"
proof -
  let ?s = "\<lparr>ctl = c, sv = svr, sol = sl, frame = 0, wld = w\<rparr>"
  note e = run_entry_result[OF assms(3)]
  have refuse: "fst (run K c w) = Inl RefusingToOverwrite
          \<and> trace (snd (snd (run K c w))) = trace (wld s1)
          \<and> filter loop_event (trace (snd (snd (run K c w)))) = filter loop_event (trace w)
          \<and> files (snd (snd (run K c w))) = files w
          \<and> frames (fst (snd (run K c w)))
               = frames c @ (if keep_copy c then [sol s1] else [])"
    if a: "output_handler c = Some h \<and> output_format c = Some fmt
            \<and> path_exists w (outdir c) \<and> \<not> output_clobber c"
  proof -
    have "initial_output K s1 = (Some RefusingToOverwrite, keep_frame s1)"
      using a e(1,4) by (intro initial_output_refuses[where h = h and fmt = fmt]) simp_all
    then have body: "run_body K ?s = (Inl RefusingToOverwrite, keep_frame s1)"
      using assms(3,4,5) by (simp add: run_body_def)
    then have run: "run K c w = (Inl RefusingToOverwrite,
         (ctl (keep_frame s1))\<lparr>solver := Some (sv (keep_frame s1)),
                                solution := Some (sol (keep_frame s1))\<rparr>,
         wld (keep_frame s1))"
      using assms(1,2) by (simp add: run_unfold)
    have quiet: "filter loop_event (trace (wld s1)) = filter loop_event (trace w)"
      unfolding e(7) by (simp add: loop_event_def output_event_def)
    show ?thesis
      using run quiet e(1,3) by (simp add: keep_frame_result)
  qed
  have bypass: "fst (run K c w) \<noteq> Inl RefusingToOverwrite"
    if off: "output_handler c = None \<or> output_format c = None"
  proof
    assume r: "fst (run K c w) = Inl RefusingToOverwrite"
    obtain r' s' where b: "run_body K ?s = (r', s')" by (cases "run_body K ?s")
    with r assms(1,2) have "r' = Inl RefusingToOverwrite" by (simp add: run_unfold)
    with b run_body_error[of K ?s RefusingToOverwrite s'] off show False
      by (auto simp: collaborator_error_def)
  qed
  from refuse bypass show ?thesis by blast
qed

text \<open>Concrete runs with an existing output directory and \<open>output_clobber\<close> off: with the
  default handler and format, with no handler, and (last) on a grid with one gauge.\<close>

theorem refuses_to_overwrite_witness:
  "fst (run demo_collaborators (demo_controller\<lparr>output_clobber := False\<rparr>)
          (demo_world\<lparr>path_exists := (\<lambda>p. p = ''/w/_output'')\<rparr>)) = Inl RefusingToOverwrite
   \<and> trace (snd (snd (run demo_collaborators (demo_controller\<lparr>output_clobber := False\<rparr>)
          (demo_world\<lparr>path_exists := (\<lambda>p. p = ''/w/_output'')\<rparr>))))
       = [SolverSetup, WriteGaugeValues]
   \<and> fst (run demo_collaborators
          (demo_controller\<lparr>output_clobber := False, output_handler := None\<rparr>)
          (demo_world\<lparr>path_exists := (\<lambda>p. p = ''/w/_output'')\<rparr>)) \<noteq> Inl RefusingToOverwrite"
proof -
  let ?c = "demo_controller\<lparr>output_clobber := False\<rparr>"
  let ?d = "demo_controller\<lparr>output_clobber := False, output_handler := None\<rparr>"
  let ?w = "demo_world\<lparr>path_exists := (\<lambda>p. p = ''/w/_output'')\<rparr>"
  let ?s = "\<lparr>ctl = ?c, sv = demo_solver, sol = demo_solution, frame = 0, wld = ?w\<rparr>"
  let ?u = "\<lparr>ctl = ?d, sv = demo_solver, sol = demo_solution, frame = 0, wld = ?w\<rparr>"
  let ?s1 = "snd (run_entry demo_collaborators ?s)"
  let ?u1 = "snd (run_entry demo_collaborators ?u)"
  have h1: "solver ?c = Some demo_solver" and h2: "solution ?c = Some demo_solution"
    and k1: "solver ?d = Some demo_solver" and k2: "solution ?d = Some demo_solution"
    by (simp_all add: demo_controller_def)
  have h3: "run_entry demo_collaborators ?s = (None, ?s1)"
    and k3: "run_entry demo_collaborators ?u = (None, ?u1)"
    by (simp_all add: prod_eq_iff entry_defs demo_defs)
  have h4: "output_times demo_collaborators ?s1 = Inr (linspace exact_arith 0 1 11)"
    and k4: "output_times demo_collaborators ?u1 = Inr (linspace exact_arith 0 1 11)"
    by (simp_all add: output_times_def entry_defs demo_defs)
  have h5: "linspace exact_arith 0 1 11 \<noteq> []"
    by (simp add: linspace_0_1_11)
  have a: "output_handler ?c = Some ''pyclaw'' \<and> output_format ?c = Some ''ascii''
            \<and> path_exists ?w (outdir ?c) \<and> \<not> output_clobber ?c"
    by (simp add: demo_defs)
  have b: "output_handler ?d = None \<or> output_format ?d = None"
    by (simp add: demo_defs)
  have tr: "trace (wld ?s1) = [SolverSetup, WriteGaugeValues]"
    by (simp add: entry_defs demo_defs)
  from mp[OF conjunct1[OF refuses_to_overwrite[OF h1 h2 h3 h4 h5,
                          of "''pyclaw''" "''ascii''"]] a] tr
  have 1: "fst (run demo_collaborators ?c ?w) = Inl RefusingToOverwrite
           \<and> trace (snd (snd (run demo_collaborators ?c ?w))) = [SolverSetup, WriteGaugeValues]"
    by simp
  from mp[OF conjunct2[OF refuses_to_overwrite[OF k1 k2 k3 k4 h5]] b]
  have 2: "fst (run demo_collaborators ?d ?w) \<noteq> Inl RefusingToOverwrite" .
  from 1 2 show ?thesis by blast
qed

theorem gauge_files_before_refusal:
  "fst (run demo_collaborators
          (demo_controller\<lparr>output_clobber := False,
                            solution := Some (demo_solution\<lparr>sol_gauges := [7]\<rparr>)\<rparr>)
          (demo_world\<lparr>path_exists := (\<lambda>p. p = ''/w/_output'')\<rparr>)) = Inl RefusingToOverwrite
   \<and> trace (snd (snd (run demo_collaborators
          (demo_controller\<lparr>output_clobber := False,
                            solution := Some (demo_solution\<lparr>sol_gauges := [7]\<rparr>)\<rparr>)
          (demo_world\<lparr>path_exists := (\<lambda>p. p = ''/w/_output'')\<rparr>))))
       = [SetupGaugeFiles ''/w/_output'', SolverSetup, WriteGaugeValues]"
  by (simp add: run_def run_body_def entry_defs demo_defs output_times_def linspace_0_1_11
                initial_output_def and_then_def ok_def keep_frame_def initial_write_def)

subsection \<open>Failures at the entry\<close>

text \<open>
  C8. When the solver or the solution is \<open>None\<close>, \<open>run\<close> raises at line 299 and
  nothing has changed: the controller and the world are what they were. When the validity
  check of the entry fails, \<open>run\<close> raises one of the errors of \<open>check_validity\<close> after the
  controller's start frame has been set to the solution's, the gauge streams have been opened (if the grid has gauges) and the solver has been set up (if
  it was not): these are the only events, so no gauge values are written and no output is
  produced, and the files and the retained frames are what they were.
\<close>

theorem entry_failures:
  "(solver c = None \<or> solution c = None \<longrightarrow> run K c w = (Inl NoSolverOrSolution, c, w))
   \<and> (solver c = Some svr \<and> solution c = Some sl
        \<and> run_entry K \<lparr>ctl = c, sv = svr, sol = sl, frame = 0, wld = w\<rparr> = (Some e, s1) \<longrightarrow>
      fst (run K c w) = Inl e
      \<and> (e = SolverWrongType \<or> (\<exists>reason. e = SolverInvalid reason)
           \<or> e = SolutionInvalid \<or> e = StatesInvalid)
      \<and> trace (snd (snd (run K c w))) = trace w
           @ (if sol_gauges sl \<noteq> [] then [SetupGaugeFiles (outdir c)] else [])
           @ (if \<not> slv_is_set_up svr then [SolverSetup] else [])
      \<and> files (snd (snd (run K c w))) = files w
      \<and> frames (fst (snd (run K c w))) = frames c
      \<and> start_frame (fst (snd (run K c w))) = sol_start_frame sl)"
proof -
  let ?s = "\<lparr>ctl = c, sv = svr, sol = sl, frame = 0, wld = w\<rparr>"
  have null: "run K c w = (Inl NoSolverOrSolution, c, w)"
    if "solver c = None \<or> solution c = None"
    using that by (auto simp: run_def split: option.splits)
  have invalid: "fst (run K c w) = Inl e
      \<and> (e = SolverWrongType \<or> (\<exists>reason. e = SolverInvalid reason)
           \<or> e = SolutionInvalid \<or> e = StatesInvalid)
      \<and> trace (snd (snd (run K c w))) = trace w
           @ (if sol_gauges sl \<noteq> [] then [SetupGaugeFiles (outdir c)] else [])
           @ (if \<not> slv_is_set_up svr then [SolverSetup] else [])
      \<and> files (snd (snd (run K c w))) = files w
      \<and> frames (fst (snd (run K c w))) = frames c
      \<and> start_frame (fst (snd (run K c w))) = sol_start_frame sl"
    if a: "solver c = Some svr \<and> solution c = Some sl \<and> run_entry K ?s = (Some e, s1)"
  proof -
    from a have entry: "run_entry K ?s = (Some e, s1)" by simp
    note r = run_entry_result[OF entry]
    have "run_body K ?s = (Inl e, s1)"
      using entry by (simp add: run_body_def)
    then have "run K c w = (Inl e, (ctl s1)\<lparr>solver := Some (sv s1), solution := Some (sol s1)\<rparr>,
                            wld s1)"
      using a by (simp add: run_unfold)
    with r(1,3,7) run_entry_error[OF entry] show ?thesis by simp
  qed
  from null invalid show ?thesis by blast
qed

theorem entry_failures_witness:
  "run demo_collaborators (init exact_arith ''/w'') demo_world
     = (Inl NoSolverOrSolution, init exact_arith ''/w'', demo_world)
   \<and> fst (run invalid_solution_collaborators demo_controller demo_world) = Inl SolutionInvalid
   \<and> trace (snd (snd (run invalid_solution_collaborators demo_controller demo_world)))
       = [SolverSetup]"
proof -
  let ?K = invalid_solution_collaborators
  let ?s = "\<lparr>ctl = demo_controller, sv = demo_solver, sol = demo_solution, frame = 0,
             wld = demo_world\<rparr>"
  let ?s1 = "snd (run_entry ?K ?s)"
  have n: "solver (init exact_arith ''/w'' :: (nat, unit, real) controller) = None \<or>
           solution (init exact_arith ''/w'' :: (nat, unit, real) controller) = None"
    by (simp add: init_def)
  have h: "solver demo_controller = Some demo_solver \<and> solution demo_controller = Some demo_solution
           \<and> run_entry ?K ?s = (Some SolutionInvalid, ?s1)"
    by (simp add: prod_eq_iff entry_defs demo_defs invalid_solution_collaborators_def)
  have g: "sol_gauges demo_solution = []" "\<not> slv_is_set_up demo_solver" "trace demo_world = []"
    by (simp_all add: demo_defs)
  from entry_failures[of "init exact_arith ''/w''" demo_collaborators demo_world] n
  have 1: "run demo_collaborators (init exact_arith ''/w'') demo_world
             = (Inl NoSolverOrSolution, init exact_arith ''/w'', demo_world)"
    by blast
  from entry_failures[of demo_controller ?K demo_world demo_solver demo_solution
                         SolutionInvalid ?s1] h g
  have 2: "fst (run ?K demo_controller demo_world) = Inl SolutionInvalid
     \<and> trace (snd (snd (run ?K demo_controller demo_world))) = [SolverSetup]"
    by simp
  from 1 2 show ?thesis by blast
qed

theorem setup_before_validity_failure:
  "fst (run invalid_solution_collaborators
          (demo_controller\<lparr>solution := Some (demo_solution\<lparr>sol_gauges := [7]\<rparr>)\<rparr>) demo_world)
     = Inl SolutionInvalid
   \<and> trace (snd (snd (run invalid_solution_collaborators
          (demo_controller\<lparr>solution := Some (demo_solution\<lparr>sol_gauges := [7]\<rparr>)\<rparr>) demo_world)))
       = [SetupGaugeFiles ''/w/_output'', SolverSetup]"
  by (simp add: run_def run_body_def entry_defs demo_defs invalid_solution_collaborators_def)

subsection \<open>A schedule of one entry\<close>

lemmas run_defs = run_def run_body_def entry_defs output_times_def
  initial_output_def and_then_def ok_def keep_frame_def initial_write_def derived_write_def
  do_compute_p_def do_write_def write_F_def write_line_def is_proc_0_def log_info_def
  initial_p_call_def initial_call_def loop_p_call_def loop_call_def
  loop_body_def evolve_def evolve_once_def loop_output_def loop_write_def increment_def
  flush_gauge_files_def emits_def finish_def close_gauge_files_def halt_report_def
  outdir_p_def F_path_def path_join_def

lemma run_entry_quiet:
  assumes "run_entry K s = (r, s1)"
  shows "filter loop_event (trace (wld s1)) = filter loop_event (trace (wld s))"
    and "filter is_GaugeClose (trace (wld s1)) = filter is_GaugeClose (trace (wld s))"
  unfolding run_entry_result(7)[OF assms]
  by (simp_all add: loop_event_def output_event_def)

lemma output_event_simps:
  "\<not> output_event (EvolveToTime tg st)" "\<not> output_event FrameIncrement"
  "\<not> output_event (GaugeFlush g)" "\<not> output_event (GaugeClose g)"
  "\<not> loop_event (GaugeClose g)"
  by (simp_all add: output_event_def loop_event_def)

lemma output_event_not:
  "output_event e \<Longrightarrow> \<not> is_EvolveToTime e"
  "output_event e \<Longrightarrow> \<not> is_FrameIncrement e"
  "output_event e \<Longrightarrow> \<not> is_GaugeFlush e"
  "output_event e \<Longrightarrow> \<not> is_GaugeClose e"
  "loop_event e \<Longrightarrow> \<not> is_GaugeClose e"
  by (cases e; simp add: output_event_def loop_event_def)+

text \<open>
  C10. When the entry of the run succeeds and the schedule has exactly one entry, \<open>run\<close>
  passes the empty-schedule check and raises: it returns neither \<open>None\<close> nor a status. It
  makes no evolution call and no frame increment. When the initial frame is produced
  without an error, the gauge streams are closed and the error is the unbound local
  \<open>status\<close> of line 420 (an \<open>UnboundLocalError\<close>, Python's NameError for locals); when the
  initial frame raises (the refusal to overwrite, or an error of a collaborator), that error
  is the one \<open>run\<close> raises, and nothing follows it. A run that returns a status has a
  schedule of at least two entries.
\<close>

theorem single_entry_schedule:
  assumes "solver c = Some svr" and "solution c = Some sl"
    and "run_entry K \<lparr>ctl = c, sv = svr, sol = sl, frame = 0, wld = w\<rparr> = (None, s1)"
  shows "(output_times K s1 = Inr [x] \<longrightarrow>
            isl (fst (run K c w))
            \<and> filter is_EvolveToTime (trace (snd (snd (run K c w))))
                = filter is_EvolveToTime (trace w)
            \<and> filter is_FrameIncrement (trace (snd (snd (run K c w))))
                = filter is_FrameIncrement (trace w)
            \<and> (\<forall>s2. initial_output K s1 = (None, s2) \<longrightarrow>
                  fst (run K c w) = Inl (UnboundLocalError ''status'')
                  \<and> trace (snd (snd (run K c w)))
                      = trace (wld s2) @ map GaugeClose (sol_gauge_files (sol s2)))
            \<and> (\<forall>e s2. initial_output K s1 = (Some e, s2) \<longrightarrow>
                  fst (run K c w) = Inl e \<and> trace (snd (snd (run K c w))) = trace (wld s2)))
       \<and> (fst (run K c w) = Inr (Some st) \<longrightarrow>
            (\<exists>ts. output_times K s1 = Inr ts \<and> 2 \<le> length ts))"
proof -
  let ?s = "\<lparr>ctl = c, sv = svr, sol = sl, frame = 0, wld = w\<rparr>"
  note e = run_entry_result[OF assms(3)]
  have run: "run K c w = (case run_body K ?s of
               (r, s) \<Rightarrow> (r, (ctl s)\<lparr>solver := Some (sv s), solution := Some (sol s)\<rparr>, wld s))"
    using assms(1,2) by (rule run_unfold)
  have ev0: "filter is_EvolveToTime (trace (wld s1)) = filter is_EvolveToTime (trace w)"
    and inc0: "filter is_FrameIncrement (trace (wld s1)) = filter is_FrameIncrement (trace w)"
    unfolding e(7) by simp_all
  have single: "isl (fst (run K c w))
            \<and> filter is_EvolveToTime (trace (snd (snd (run K c w))))
                = filter is_EvolveToTime (trace w)
            \<and> filter is_FrameIncrement (trace (snd (snd (run K c w))))
                = filter is_FrameIncrement (trace w)
            \<and> (\<forall>s2. initial_output K s1 = (None, s2) \<longrightarrow>
                  fst (run K c w) = Inl (UnboundLocalError ''status'')
                  \<and> trace (snd (snd (run K c w)))
                      = trace (wld s2) @ map GaugeClose (sol_gauge_files (sol s2)))
            \<and> (\<forall>e s2. initial_output K s1 = (Some e, s2) \<longrightarrow>
                  fst (run K c w) = Inl e \<and> trace (snd (snd (run K c w))) = trace (wld s2))"
    if one: "output_times K s1 = Inr [x]" for x
  proof (cases "initial_output K s1")
    case (Pair r2 s2)
    note st = initial_output_steps[OF Pair]
    have ev: "filter is_EvolveToTime (trace (wld s2)) = filter is_EvolveToTime (trace w)"
      using steps_filter[OF st, of is_EvolveToTime] ev0 by (simp add: output_event_not)
    have inc: "filter is_FrameIncrement (trace (wld s2)) = filter is_FrameIncrement (trace w)"
      using steps_filter[OF st, of is_FrameIncrement] inc0 by (simp add: output_event_not)
    show ?thesis
    proof (cases r2)
      case (Some e2)
      with Pair one assms(3) have "run_body K ?s = (Inl e2, s2)"
        by (simp add: run_body_def)
      with run ev inc Pair Some show ?thesis by simp
    next
      case None
      with Pair one assms(3) have "run_body K ?s = finish None s2"
        by (simp add: run_body_def)
      with run ev inc Pair None show ?thesis
        by (simp add: finish_def Let_def close_gauge_files_def emits_def)
    qed
  qed
  have two: "\<exists>ts. output_times K s1 = Inr ts \<and> 2 \<le> length ts"
    if ret: "fst (run K c w) = Inr (Some st)"
  proof (cases "output_times K s1")
    case (Inl e1)
    with assms(3) have "run_body K ?s = (Inl e1, s1)" by (simp add: run_body_def)
    with run ret show ?thesis by simp
  next
    case (Inr ts)
    show ?thesis
    proof (cases ts)
      case Nil
      with Inr assms(3) have "run_body K ?s = (Inr None, halt_report K s1)"
        by (simp add: run_body_def)
      with run ret show ?thesis by simp
    next
      case (Cons y ys)
      show ?thesis
      proof (cases ys)
        case Nil
        with Cons Inr single[of y] ret show ?thesis by simp
      next
        case (Cons z zs)
        with \<open>ts = y # ys\<close> Inr show ?thesis by simp
      qed
    qed
  qed
  from single[of x] two show ?thesis by blast
qed

text \<open>Concrete runs under style 1: \<open>num_output_times = 0\<close>, the same with an existing output
  directory and \<open>output_clobber\<close> off, and \<open>num_output_times = 1\<close>.\<close>

theorem single_entry_schedule_witness:
  "fst (run demo_collaborators (demo_controller\<lparr>num_output_times := 0\<rparr>) demo_world)
     = Inl (UnboundLocalError ''status'')
   \<and> filter is_EvolveToTime
        (trace (snd (snd (run demo_collaborators (demo_controller\<lparr>num_output_times := 0\<rparr>)
                            demo_world)))) = []
   \<and> fst (run demo_collaborators
            (demo_controller\<lparr>num_output_times := 0, output_clobber := False\<rparr>)
            (demo_world\<lparr>path_exists := (\<lambda>p. p = ''/w/_output'')\<rparr>)) = Inl RefusingToOverwrite
   \<and> fst (run demo_collaborators (demo_controller\<lparr>num_output_times := 1\<rparr>) demo_world)
       = Inr (Some 1)
   \<and> (\<exists>ts. output_times demo_collaborators (snd (run_entry demo_collaborators
               \<lparr>ctl = demo_controller\<lparr>num_output_times := 1\<rparr>, sv = demo_solver,
                sol = demo_solution, frame = 0, wld = demo_world\<rparr>)) = Inr ts
          \<and> 2 \<le> length ts)"
proof -
  let ?K = demo_collaborators
  let ?c0 = "demo_controller\<lparr>num_output_times := 0\<rparr>"
  let ?c1 = "demo_controller\<lparr>num_output_times := 1\<rparr>"
  let ?c2 = "demo_controller\<lparr>num_output_times := 0, output_clobber := False\<rparr>"
  let ?w2 = "demo_world\<lparr>path_exists := (\<lambda>p. p = ''/w/_output'')\<rparr>"
  let ?s0 = "\<lparr>ctl = ?c0, sv = demo_solver, sol = demo_solution, frame = 0, wld = demo_world\<rparr>"
  let ?s1 = "\<lparr>ctl = ?c1, sv = demo_solver, sol = demo_solution, frame = 0, wld = demo_world\<rparr>"
  let ?s2 = "\<lparr>ctl = ?c2, sv = demo_solver, sol = demo_solution, frame = 0, wld = ?w2\<rparr>"
  let ?e0 = "snd (run_entry ?K ?s0)"
  let ?e1 = "snd (run_entry ?K ?s1)"
  let ?e2 = "snd (run_entry ?K ?s2)"
  have h0: "solver ?c0 = Some demo_solver" "solution ?c0 = Some demo_solution"
    and h1: "solver ?c1 = Some demo_solver" "solution ?c1 = Some demo_solution"
    and h2: "solver ?c2 = Some demo_solver" "solution ?c2 = Some demo_solution"
    by (simp_all add: demo_controller_def)
  have e0: "run_entry ?K ?s0 = (None, ?e0)"
    and e1: "run_entry ?K ?s1 = (None, ?e1)"
    and e2: "run_entry ?K ?s2 = (None, ?e2)"
    by (simp_all add: prod_eq_iff entry_defs demo_defs)
  have one: "output_times ?K ?e0 = Inr [0]" and one2: "output_times ?K ?e2 = Inr [0]"
    by (simp_all add: output_times_def linspace_def entry_defs demo_defs)
  have i0: "initial_output ?K ?e0 = (None, snd (initial_output ?K ?e0))"
    by (simp add: prod_eq_iff run_defs demo_defs)
  have i2: "initial_output ?K ?e2 = (Some RefusingToOverwrite, snd (initial_output ?K ?e2))"
    by (simp add: prod_eq_iff run_defs demo_defs)
  have ret: "fst (run ?K ?c1 demo_world) = Inr (Some 1)"
    by (simp add: run_defs demo_defs linspace_0_1_2)
  have w: "trace demo_world = []" by (simp add: demo_world_def)
  note t0 = mp[OF conjunct1[OF single_entry_schedule[OF h0 e0, where x = 0]] one]
  from t0 have "filter is_EvolveToTime (trace (snd (snd (run ?K ?c0 demo_world))))
         = filter is_EvolveToTime (trace demo_world)"
    by (elim conjE)
  moreover from t0 have "\<forall>s2. initial_output ?K ?e0 = (None, s2) \<longrightarrow>
      fst (run ?K ?c0 demo_world) = Inl (UnboundLocalError ''status'')
      \<and> trace (snd (snd (run ?K ?c0 demo_world)))
           = trace (wld s2) @ map GaugeClose (sol_gauge_files (sol s2))"
    by (elim conjE)
  ultimately have a: "fst (run ?K ?c0 demo_world) = Inl (UnboundLocalError ''status'')
     \<and> filter is_EvolveToTime (trace (snd (snd (run ?K ?c0 demo_world)))) = []"
    using i0 w by simp
  note t2 = mp[OF conjunct1[OF single_entry_schedule[OF h2 e2, where x = 0]] one2]
  from t2 have "\<forall>e s2. initial_output ?K ?e2 = (Some e, s2) \<longrightarrow>
      fst (run ?K ?c2 ?w2) = Inl e \<and> trace (snd (snd (run ?K ?c2 ?w2))) = trace (wld s2)"
    by (elim conjE)
  with i2 have c: "fst (run ?K ?c2 ?w2) = Inl RefusingToOverwrite"
    by blast
  from single_entry_schedule[OF h1 e1, where st = 1] ret
  have b: "\<exists>ts. output_times ?K ?e1 = Inr ts \<and> 2 \<le> length ts"
    by blast
  from a b c ret show ?thesis by blast
qed

theorem single_entry_refusal:
  "output_times demo_collaborators
     (snd (run_entry demo_collaborators
        \<lparr>ctl = demo_controller\<lparr>num_output_times := 0, output_clobber := False\<rparr>,
         sv = demo_solver, sol = demo_solution, frame = 0,
         wld = demo_world\<lparr>path_exists := (\<lambda>p. p = ''/w/_output'')\<rparr>\<rparr>)) = Inr [0]
   \<and> run demo_collaborators
        (demo_controller\<lparr>num_output_times := 0, output_clobber := False\<rparr>)
        (demo_world\<lparr>path_exists := (\<lambda>p. p = ''/w/_output'')\<rparr>)
       = (Inl RefusingToOverwrite,
          demo_controller\<lparr>num_output_times := 0, output_clobber := False,
            solver := Some (demo_solver\<lparr>slv_is_set_up := True, slv_dt := 1 / 10\<rparr>)\<rparr>,
          demo_world\<lparr>path_exists := (\<lambda>p. p = ''/w/_output''),
                       trace := [SolverSetup, WriteGaugeValues]\<rparr>)"
  by (simp add: run_defs demo_defs linspace_def)

subsection \<open>One target time and the flushing of the gauge streams\<close>

lemma output_pre_flush_event: "output_event e \<Longrightarrow> pre_flush_event e"
  by (simp add: pre_flush_event_def)

lemma loop_output_None:
  assumes "loop_output K s = (None, s')"
  obtains s2 s3 s4 where "loop_write K (keep_frame (increment s)) = (None, s3)"
    and "write_F K Append s3 = (None, s4)"
    and "s' = flush_gauge_files (log_info s4)"
  using assms by (auto simp: loop_output_def and_then_None ok_None)

lemma loop_output_flushes:
  assumes "loop_output K s = (None, s')"
  shows "\<exists>s5. steps pre_flush_event s s5 \<and> s' = flush_gauge_files s5"
proof -
  from assms obtain s3 s4 where w: "loop_write K (keep_frame (increment s)) = (None, s3)"
    and f: "write_F K Append s3 = (None, s4)"
    and s': "s' = flush_gauge_files (log_info s4)"
    by (rule loop_output_None)
  note m = output_pre_flush_event
  have "steps pre_flush_event s (increment s)"
    by (simp add: increment_def steps_def emit_def pre_flush_event_def)
  also have "steps pre_flush_event (increment s) (keep_frame (increment s))"
    by (rule keep_frame_steps)
  also have "steps pre_flush_event (keep_frame (increment s)) s3"
    by (rule steps_mono[OF loop_write_steps[OF w] m[OF write_event_output]])
  also have "steps pre_flush_event s3 s4"
    by (rule steps_mono[OF write_F_steps[OF f] m])
  also have "steps pre_flush_event s4 (log_info s4)"
    by (rule steps_mono[OF log_info_steps m])
  finally show ?thesis using s' by blast
qed

lemma flush_gauge_files_result:
  "trace (wld (flush_gauge_files s)) = trace (wld s) @ map GaugeFlush (sol_gauge_files (sol s))"
  "files (wld (flush_gauge_files s)) = files (wld s)"
  "ctl (flush_gauge_files s) = ctl s"
  "sol (flush_gauge_files s) = sol s"
  by (simp_all add: flush_gauge_files_def emits_def)

lemma filter_flush_map: "filter is_GaugeFlush (map GaugeFlush gs) = map GaugeFlush gs"
  by (induction gs) simp_all

lemma pre_flush_event_not: "pre_flush_event e \<Longrightarrow> \<not> is_GaugeFlush e"
  by (cases e; simp add: pre_flush_event_def output_event_def)

lemma loop_output_flush_trace:
  assumes "loop_output K s = (None, s')"
  shows "filter is_GaugeFlush (trace (wld s'))
           = filter is_GaugeFlush (trace (wld s)) @ map GaugeFlush (sol_gauge_files (sol s))"
    and "\<exists>pre. trace (wld s') = trace (wld s) @ pre @ map GaugeFlush (sol_gauge_files (sol s))
               \<and> filter is_GaugeFlush pre = []"
proof -
  from loop_output_flushes[OF assms] obtain s5
    where st: "steps pre_flush_event s s5" and s': "s' = flush_gauge_files s5" by blast
  from st obtain pre where pre: "trace (wld s5) = trace (wld s) @ pre" "list_all pre_flush_event pre"
    and g: "sol_gauge_files (sol s5) = sol_gauge_files (sol s)"
    unfolding steps_def by blast
  from pre(2) have np: "filter is_GaugeFlush pre = []"
    by (auto simp: list_all_iff filter_empty_conv pre_flush_event_not)
  show "filter is_GaugeFlush (trace (wld s'))
           = filter is_GaugeFlush (trace (wld s)) @ map GaugeFlush (sol_gauge_files (sol s))"
    using s' pre(1) g np by (simp add: flush_gauge_files_result filter_flush_map)
  show "\<exists>pre. trace (wld s') = trace (wld s) @ pre @ map GaugeFlush (sol_gauge_files (sol s))
               \<and> filter is_GaugeFlush pre = []"
    using s' pre(1) g np by (simp add: flush_gauge_files_result)
qed

lemma loop_body_Inr:
  assumes "loop_body K tg st s = (Inr st', s')"
  obtains s1 where "evolve K tg st s = (Inr st', s1)" and "loop_output K s1 = (None, s')"
  using assms unfolding loop_body_def
  by (auto split: prod.splits sum.splits option.splits)

lemma evolve_event_not:
  "is_EvolveToTime e \<Longrightarrow> \<not> is_GaugeFlush e"
  "is_EvolveToTime e \<Longrightarrow> \<not> is_GaugeClose e"
  "is_EvolveToTime e \<Longrightarrow> \<not> is_FileWrite e"
  by (cases e; simp)+

lemma loop_body_flush:
  assumes "loop_body K tg st s = (Inr st', s')"
  shows "filter is_GaugeFlush (trace (wld s'))
           = filter is_GaugeFlush (trace (wld s)) @ map GaugeFlush (sol_gauge_files (sol s))"
proof -
  from assms obtain s1 where e: "evolve K tg st s = (Inr st', s1)"
    and o: "loop_output K s1 = (None, s')" by (rule loop_body_Inr)
  have st: "steps is_EvolveToTime s s1" using e by (rule evolve_only)
  have "filter is_GaugeFlush (trace (wld s1)) = filter is_GaugeFlush (trace (wld s))"
    by (rule steps_filter[OF st evolve_event_not(1)])
  moreover from st have "sol_gauge_files (sol s1) = sol_gauge_files (sol s)"
    by (simp add: steps_def)
  ultimately have "filter is_GaugeFlush (trace (wld s1)) = filter is_GaugeFlush (trace (wld s))"
    and "sol_gauge_files (sol s1) = sol_gauge_files (sol s)"
    by simp_all
  with loop_output_flush_trace(1)[OF o] show ?thesis by simp
qed

lemma run_loop_flush:
  assumes "run_loop K tgs st s = (Inr st', s')"
  shows "filter is_GaugeFlush (trace (wld s'))
           = filter is_GaugeFlush (trace (wld s))
             @ concat (replicate (length tgs) (map GaugeFlush (sol_gauge_files (sol s))))"
  using assms
proof (induction tgs arbitrary: st s)
  case Nil
  then show ?case by simp
next
  case (Cons tg tgs)
  from Cons.prems obtain st1 s1 where b: "loop_body K tg st s = (Inr st1, s1)"
    and l: "run_loop K tgs st1 s1 = (Inr st', s')"
    by (auto split: prod.splits sum.splits)
  have "steps loop_event s s1" using b by (rule loop_body_steps)
  then have g: "sol_gauge_files (sol s1) = sol_gauge_files (sol s)"
    by (simp add: steps_def)
  from Cons.IH[OF l] loop_body_flush[OF b] g show ?case by simp
qed

lemma run_body_Some:
  assumes "run_body K s = (Inr (Some st), s')"
  obtains s1 ts s2 s3 where "run_entry K s = (None, s1)" and "output_times K s1 = Inr ts"
    and "ts \<noteq> []" and "initial_output K s1 = (None, s2)"
    and "run_loop K (drop 1 ts) None s2 = (Inr (Some st), s3)"
    and "s' = snd (finish (Some st) s3)"
  using assms unfolding run_body_def
  by (auto simp: finish_def Let_def split: prod.splits sum.splits option.splits if_splits)

text \<open>
  C4. In a run that returns a status, with a schedule of \<open>length ts\<close> output
  points, every gauge stream is flushed \<open>length ts - 1\<close> times, in rounds over all the
  streams: once after each output point of the loop. The initial output point emits no
  flush, and each output point of the loop that completes ends with the flush of every gauge
  stream, after its writes and its progress line.
\<close>

theorem gauge_flushes:
  assumes "solver c = Some svr" and "solution c = Some sl"
    and "run_entry K \<lparr>ctl = c, sv = svr, sol = sl, frame = 0, wld = w\<rparr> = (None, s1)"
    and "output_times K s1 = Inr ts"
    and "fst (run K c w) = Inr (Some st)"
  shows "filter is_GaugeFlush (trace (snd (snd (run K c w))))
           = filter is_GaugeFlush (trace w)
             @ concat (replicate (length ts - 1) (map GaugeFlush (sol_gauge_files (sol s1))))
       \<and> (initial_output K s = (r, s') \<longrightarrow>
            filter is_GaugeFlush (trace (wld s')) = filter is_GaugeFlush (trace (wld s)))
       \<and> (loop_output K u = (None, u') \<longrightarrow>
            (\<exists>pre. trace (wld u') = trace (wld u) @ pre @ map GaugeFlush (sol_gauge_files (sol u))
                   \<and> filter is_GaugeFlush pre = []))"
proof -
  let ?s = "\<lparr>ctl = c, sv = svr, sol = sl, frame = 0, wld = w\<rparr>"
  obtain r' s'' where b: "run_body K ?s = (r', s'')" by (cases "run_body K ?s")
  with assms(1,2,5) have r': "r' = Inr (Some st)" and w': "snd (snd (run K c w)) = wld s''"
    by (simp_all add: run_unfold)
  from b r' obtain s1' ts' s2 s3 where d: "run_entry K ?s = (None, s1')"
      "output_times K s1' = Inr ts'" "initial_output K s1' = (None, s2)"
      "run_loop K (drop 1 ts') None s2 = (Inr (Some st), s3)"
      "s'' = snd (finish (Some st) s3)"
    by (auto elim: run_body_Some)
  from d(1,2) assms(3,4) have eq: "s1' = s1" "ts' = ts" by simp_all
  have f0: "filter is_GaugeFlush (trace (wld s1)) = filter is_GaugeFlush (trace w)"
    unfolding run_entry_result(7)[OF assms(3)] by simp
  have st2: "steps output_event s1 s2" using d(3) eq by (simp add: initial_output_steps)
  then have f2: "filter is_GaugeFlush (trace (wld s2)) = filter is_GaugeFlush (trace (wld s1))"
    by (rule steps_filter) (simp add: output_event_not)
  from st2 have g2: "sol_gauge_files (sol s2) = sol_gauge_files (sol s1)"
    by (simp add: steps_def)
  have f3: "filter is_GaugeFlush (trace (wld s3))
           = filter is_GaugeFlush (trace (wld s2))
             @ concat (replicate (length (drop 1 ts)) (map GaugeFlush (sol_gauge_files (sol s2))))"
    using d(4) eq by (simp add: run_loop_flush)
  have f4: "filter is_GaugeFlush (trace (wld s'')) = filter is_GaugeFlush (trace (wld s3))"
    unfolding d(5) by (simp add: finish_result)
  have whole: "filter is_GaugeFlush (trace (snd (snd (run K c w))))
           = filter is_GaugeFlush (trace w)
             @ concat (replicate (length ts - 1) (map GaugeFlush (sol_gauge_files (sol s1))))"
    unfolding w' f4 f3 f2 f0 g2 by simp
  have first: "filter is_GaugeFlush (trace (wld s')) = filter is_GaugeFlush (trace (wld s))"
    if "initial_output K s = (r, s')"
    by (rule steps_filter[OF initial_output_steps[OF that]]) (simp add: output_event_not)
  from whole first loop_output_flush_trace(2) show ?thesis by blast
qed

lemmas gauge_defs = gauge_solution_def gauge_controller_def

theorem gauge_flushes_witness:
  "filter is_GaugeFlush (trace (snd (snd (run demo_collaborators gauge_controller demo_world))))
     = [GaugeFlush 7]
   \<and> filter is_GaugeFlush
        (trace (wld (snd (initial_output demo_collaborators
           \<lparr>ctl = gauge_controller, sv = demo_solver, sol = gauge_solution\<lparr>sol_gauge_files := [7]\<rparr>,
            frame = 0, wld = demo_world\<rparr>)))) = []
   \<and> (\<exists>pre. trace (wld (snd (loop_output demo_collaborators
           \<lparr>ctl = gauge_controller, sv = demo_solver, sol = gauge_solution\<lparr>sol_gauge_files := [7]\<rparr>,
            frame = 0, wld = demo_world\<rparr>))) = pre @ [GaugeFlush 7]
          \<and> filter is_GaugeFlush pre = [])"
proof -
  let ?K = demo_collaborators
  let ?s = "\<lparr>ctl = gauge_controller, sv = demo_solver, sol = gauge_solution, frame = 0,
             wld = demo_world\<rparr>"
  let ?u = "\<lparr>ctl = gauge_controller, sv = demo_solver,
             sol = gauge_solution\<lparr>sol_gauge_files := [7]\<rparr>, frame = 0, wld = demo_world\<rparr>"
  let ?s1 = "snd (run_entry ?K ?s)"
  have h1: "solver gauge_controller = Some demo_solver"
    and h2: "solution gauge_controller = Some gauge_solution"
    by (simp_all add: gauge_defs demo_controller_def)
  have h3: "run_entry ?K ?s = (None, ?s1)"
    by (simp add: prod_eq_iff entry_defs demo_defs gauge_defs)
  have h4: "output_times demo_collaborators ?s1 = Inr [0, 1]"
    by (simp add: output_times_def entry_defs demo_defs gauge_defs linspace_0_1_2)
  have h5: "fst (run ?K gauge_controller demo_world) = Inr (Some 1)"
    by (simp add: run_defs demo_defs gauge_defs linspace_0_1_2)
  have g: "sol_gauge_files (sol ?s1) = [7]"
    by (simp add: entry_defs demo_defs gauge_defs)
  have i: "initial_output ?K ?u = (fst (initial_output ?K ?u), snd (initial_output ?K ?u))"
    by simp
  have l: "loop_output ?K ?u = (None, snd (loop_output ?K ?u))"
    by (simp add: prod_eq_iff run_defs demo_defs gauge_defs)
  have w: "trace demo_world = []" "trace (wld ?u) = []" "sol_gauge_files (sol ?u) = [7]"
    by (simp_all add: demo_world_def)
  note t = gauge_flushes[OF h1 h2 h3 h4 h5, of ?u "fst (initial_output ?K ?u)"
             "snd (initial_output ?K ?u)" ?u "snd (loop_output ?K ?u)"]
  from t have "filter is_GaugeFlush (trace (snd (snd (run ?K gauge_controller demo_world))))
     = [GaugeFlush 7]"
    using g w by simp
  moreover from t i have "filter is_GaugeFlush (trace (wld (snd (initial_output ?K ?u)))) = []"
    using w by simp
  moreover from t l have "\<exists>pre. trace (wld (snd (loop_output ?K ?u))) = pre @ [GaugeFlush 7]
          \<and> filter is_GaugeFlush pre = []"
    using w by simp
  ultimately show ?thesis by blast
qed

theorem no_flush_after_initial_output:
  "trace (snd (snd (run demo_collaborators gauge_controller demo_world)))
     = [SetupGaugeFiles ''/w/_output'', SolverSetup, WriteGaugeValues,
        SolutionWrite \<lparr>wr_frame = 0, wr_path = ''/w/_output'', wr_file_prefix = None,
          wr_io_handler = ''pyclaw'', wr_file_format = ''ascii'', wr_clobber = True,
          wr_write_aux = False, wr_write_p = False, wr_options = []\<rparr>,
        LogInfo 0 0,
        EvolveToTime (Some 1) (Some 1), FrameIncrement,
        SolutionWrite \<lparr>wr_frame = 1, wr_path = ''/w/_output'', wr_file_prefix = None,
          wr_io_handler = ''pyclaw'', wr_file_format = ''ascii'', wr_clobber = True,
          wr_write_aux = False, wr_write_p = False, wr_options = []\<rparr>,
        LogInfo 1 1, GaugeFlush 7, GaugeClose 7]"
  by (simp add: run_defs demo_defs gauge_defs linspace_0_1_2)

subsection \<open>Closing the gauge streams\<close>

lemma collaborator_error_not_unbound:
  "collaborator_error e \<Longrightarrow> e \<noteq> UnboundLocalError n"
  by (auto simp: collaborator_error_def)

lemma filter_close_map: "filter is_GaugeClose (map GaugeClose gs) = map GaugeClose gs"
  by (induction gs) simp_all

lemma run_body_closes:
  assumes "run_body K s = (r, s')" and "run_entry K s = (r1, s1)"
  shows "filter is_GaugeClose (trace (wld s'))
           = filter is_GaugeClose (trace (wld s))
             @ (if loop_exhausted r then map GaugeClose (sol_gauge_files (sol s1)) else [])"
proof -
  note c0 = run_entry_quiet(2)[OF assms(2)]
  show ?thesis
  proof (cases r1)
    case (Some e1)
    with assms have "r = Inl e1" "s' = s1" by (simp_all add: run_body_def)
    with run_entry_error[of K s e1 s1] assms(2) Some c0 show ?thesis
      by (auto simp: loop_exhausted_def)
  next
    case None
    show ?thesis
    proof (cases "output_times K s1")
      case (Inl e2)
      with assms None have "r = Inl e2" "s' = s1" by (simp_all add: run_body_def)
      with Inl c0 show ?thesis
        by (auto simp: loop_exhausted_def output_times_def ones_def split: if_splits)
    next
      case (Inr ts)
      show ?thesis
      proof (cases "ts = []")
        case True
        with assms None Inr have "r = Inr None" "s' = halt_report K s1"
          by (simp_all add: run_body_def)
        with c0 show ?thesis
          by (simp add: loop_exhausted_def halt_report_result)
      next
        case False
        show ?thesis
        proof (cases "initial_output K s1")
          case (Pair r2 s2)
          note st2 = initial_output_steps[OF Pair]
          have c2: "filter is_GaugeClose (trace (wld s2)) = filter is_GaugeClose (trace (wld s))"
            using steps_filter[OF st2, of is_GaugeClose] c0 by (simp add: output_event_not)
          show ?thesis
          proof (cases r2)
            case (Some e2)
            with assms None Inr False Pair have "r = Inl e2" "s' = s2"
              by (simp_all add: run_body_def)
            with initial_output_error[of K s1 e2 s2] Pair Some c2 show ?thesis
              by (auto simp: loop_exhausted_def)
          next
            case None2: None
            show ?thesis
            proof (cases "run_loop K (drop 1 ts) None s2")
              case (Pair r3 s3)
              note st3 = run_loop_steps[OF Pair]
              have c3: "filter is_GaugeClose (trace (wld s3))
                          = filter is_GaugeClose (trace (wld s))"
                using steps_filter[OF st3, of is_GaugeClose] c2 by (simp add: output_event_not)
              have g3: "sol_gauge_files (sol s3) = sol_gauge_files (sol s1)"
                using st2 st3 by (simp add: steps_def)
              show ?thesis
              proof (cases r3)
                case (Inl e3)
                with assms None Inr False \<open>initial_output K s1 = (r2, s2)\<close> None2 Pair
                have "r = Inl e3" "s' = s3"
                  by (simp_all add: run_body_def)
                with run_loop_error[of K "drop 1 ts" None s2 e3 s3] Pair Inl c3 show ?thesis
                  by (auto simp: loop_exhausted_def dest: collaborator_error_not_unbound)
              next
                case (Inr st)
                with assms None \<open>output_times K s1 = Inr ts\<close> False
                  \<open>initial_output K s1 = (r2, s2)\<close> None2 Pair
                have "(r, s') = finish st s3"
                  by (simp add: run_body_def)
                then have "r = fst (finish st s3)" "s' = snd (finish st s3)"
                  by (simp_all add: prod_eq_iff)
                with c3 g3 show ?thesis
                  by (simp add: finish_result loop_exhausted_def filter_close_map
                           split: option.splits)
              qed
            qed
          qed
        qed
      qed
    qed
  qed
qed

text \<open>
  C5. A run past the null check closes the gauge streams only at line 415, after
  its loop has exhausted the schedule: when \<open>run\<close> returns a status (or reaches the unbound
  \<open>status\<close> of line 420) every open gauge stream has been closed exactly once, in one round
  over the streams; when \<open>run\<close> halts on an empty schedule, or raises any other error, it has
  closed none of them. The open gauge streams are those of the solution after the entry.
\<close>

theorem gauge_closes:
  assumes "solver c = Some svr" and "solution c = Some sl"
    and "run_entry K \<lparr>ctl = c, sv = svr, sol = sl, frame = 0, wld = w\<rparr> = (r1, s1)"
  shows "filter is_GaugeClose (trace (snd (snd (run K c w))))
           = filter is_GaugeClose (trace w)
             @ (if loop_exhausted (fst (run K c w))
                then map GaugeClose (sol_gauge_files (sol s1)) else [])"
proof -
  let ?s = "\<lparr>ctl = c, sv = svr, sol = sl, frame = 0, wld = w\<rparr>"
  obtain r s' where b: "run_body K ?s = (r, s')" by (cases "run_body K ?s")
  with assms(1,2) have "fst (run K c w) = r" "snd (snd (run K c w)) = wld s'"
    by (simp_all add: run_unfold)
  with run_body_closes[OF b assms(3)] show ?thesis by simp
qed

theorem gauge_closes_witness:
  "fst (run demo_collaborators gauge_controller demo_world) = Inr (Some 1)
   \<and> filter is_GaugeClose (trace (snd (snd (run demo_collaborators gauge_controller demo_world))))
       = [GaugeClose 7]"
proof -
  let ?K = demo_collaborators
  let ?s = "\<lparr>ctl = gauge_controller, sv = demo_solver, sol = gauge_solution, frame = 0,
             wld = demo_world\<rparr>"
  let ?s1 = "snd (run_entry ?K ?s)"
  have h1: "solver gauge_controller = Some demo_solver"
    and h2: "solution gauge_controller = Some gauge_solution"
    by (simp_all add: gauge_defs demo_controller_def)
  have h3: "run_entry ?K ?s = (fst (run_entry ?K ?s), ?s1)"
    by simp
  have r: "fst (run ?K gauge_controller demo_world) = Inr (Some 1)"
    by (simp add: run_defs demo_defs gauge_defs linspace_0_1_2)
  have g: "sol_gauge_files (sol ?s1) = [7]"
    by (simp add: entry_defs demo_defs gauge_defs)
  have w: "trace demo_world = []" by (simp add: demo_world_def)
  from gauge_closes[OF h1 h2 h3] r g w show ?thesis
    by (simp add: loop_exhausted_def)
qed

theorem gauge_streams_left_open:
  "run demo_collaborators (gauge_controller\<lparr>num_output_times := - 1\<rparr>) demo_world
     = (Inr None,
        gauge_controller\<lparr>num_output_times := - 1,
          solver := Some (demo_solver\<lparr>slv_is_set_up := True, slv_dt := 1 / 10\<rparr>),
          solution := Some (gauge_solution\<lparr>sol_gauge_files := [7]\<rparr>)\<rparr>,
        demo_world\<lparr>trace := [SetupGaugeFiles ''/w/_output'', SolverSetup, WriteGaugeValues,
                               Print ''No valid output times; halting.'']\<rparr>)
   \<and> fst (run failing_collaborators gauge_controller demo_world)
       = Inl (Propagated ''evolution failed'')
   \<and> filter is_GaugeClose
        (trace (snd (snd (run failing_collaborators gauge_controller demo_world)))) = []"
  by (simp add: run_defs demo_defs gauge_defs failing_collaborators_def linspace_0_1_2
                linspace_empty)

subsection \<open>The functional log\<close>

lemma same_configuration:
  assumes "c'\<lparr>frames := []\<rparr> = c\<lparr>frames := []\<rparr>"
  shows "compute_F c' = compute_F c" and "F_path c' = F_path c"
    and "output_style c' = output_style c" and "nstepout c' = nstepout c"
proof -
  have "compute_F (c'\<lparr>frames := []\<rparr>) = compute_F (c\<lparr>frames := []\<rparr>)"
    "outdir (c'\<lparr>frames := []\<rparr>) = outdir (c\<lparr>frames := []\<rparr>)"
    "F_file_name (c'\<lparr>frames := []\<rparr>) = F_file_name (c\<lparr>frames := []\<rparr>)"
    "output_style (c'\<lparr>frames := []\<rparr>) = output_style (c\<lparr>frames := []\<rparr>)"
    "nstepout (c'\<lparr>frames := []\<rparr>) = nstepout (c\<lparr>frames := []\<rparr>)"
    using assms by simp_all
  then show "compute_F c' = compute_F c" and "F_path c' = F_path c"
    and "output_style c' = output_style c" and "nstepout c' = nstepout c"
    by (simp_all add: F_path_def)
qed

lemma steps_configuration:
  assumes "steps P s s'"
  shows "compute_F (ctl s') = compute_F (ctl s)" and "F_path (ctl s') = F_path (ctl s)"
    and "output_style (ctl s') = output_style (ctl s)" and "nstepout (ctl s') = nstepout (ctl s)"
  using assms same_configuration[of "ctl s'" "ctl s"] by (simp_all add: steps_def)

lemma write_F_log:
  assumes "write_F K m s = (None, s')" and "compute_F (ctl s) = Some f"
  shows "\<exists>l. files (wld s') = write_line (F_path (ctl s)) m l (files (wld s))"
proof (cases "f (sol_state (sol s))")
  case (Inl msg)
  with assms show ?thesis by (simp add: write_F_def)
next
  case (Inr q')
  let ?l = "(sol_t (sol s), map (\<lambda>i. state_sum_F K q' (int i)) [0..<nat (state_mF K q')])"
  from Inr assms have "files (wld s') = write_line (F_path (ctl s)) m ?l (files (wld s))"
    by (auto simp: write_F_def Let_def is_proc_0_def emit_def)
  then show ?thesis by (rule exI)
qed

lemma initial_output_None:
  assumes "initial_output K s = (None, s')"
  obtains s2 s3 where "initial_write K (keep_frame s) = (None, s2)"
    and "write_F K Truncate s2 = (None, s3)" and "s' = log_info s3"
  using assms by (auto simp: initial_output_def and_then_None ok_None)

lemma log_info_result:
  "files (wld (log_info s)) = files (wld s)" "ctl (log_info s) = ctl s"
  by (simp_all add: log_info_def emit_def)

lemma initial_output_log:
  assumes "initial_output K s = (None, s')" and "compute_F (ctl s) = Some f"
  shows "\<exists>l. files (wld s') (F_path (ctl s)) = Some [l]"
proof -
  from assms(1) obtain s2 s3 where w: "initial_write K (keep_frame s) = (None, s2)"
    and f: "write_F K Truncate s2 = (None, s3)" and s': "s' = log_info s3"
    by (rule initial_output_None)
  have "steps write_event s (keep_frame s)" by (rule keep_frame_steps)
  also have "steps write_event (keep_frame s) s2" using w by (rule initial_write_steps)
  finally have st: "steps write_event s s2" .
  note c = steps_configuration(1,2)[OF st]
  from write_F_log[OF f] c assms(2) obtain l
    where "files (wld s3) = write_line (F_path (ctl s)) Truncate l (files (wld s2))"
    by auto
  then show ?thesis using s' by (auto simp: write_line_def log_info_result)
qed

lemma loop_body_log:
  assumes "loop_body K tg st s = (Inr st', s')" and "compute_F (ctl s) = Some f"
    and "files (wld s) (F_path (ctl s)) = Some ls"
  shows "\<exists>l. files (wld s') (F_path (ctl s)) = Some (ls @ [l])"
proof -
  from assms(1) obtain s1 where e: "evolve K tg st s = (Inr st', s1)"
    and o: "loop_output K s1 = (None, s')" by (rule loop_body_Inr)
  from o obtain s3 s4 where w: "loop_write K (keep_frame (increment s1)) = (None, s3)"
    and f: "write_F K Append s3 = (None, s4)"
    and s': "s' = flush_gauge_files (log_info s4)"
    by (rule loop_output_None)
  have st1: "steps is_EvolveToTime s s1" using e by (rule evolve_only)
  have f1: "files (wld s1) = files (wld s)"
    by (rule steps_files[OF st1 evolve_event_not(3)])
  have "steps (\<lambda>e. \<not> is_FileWrite e) s1 (increment s1)"
    unfolding increment_def steps_def emit_def by simp
  also have "steps (\<lambda>e. \<not> is_FileWrite e) (increment s1) (keep_frame (increment s1))"
    by (rule keep_frame_steps)
  also have "steps (\<lambda>e. \<not> is_FileWrite e) (keep_frame (increment s1)) s3"
    by (rule steps_mono[OF loop_write_steps[OF w] write_event_not])
  finally have st3: "steps (\<lambda>e. \<not> is_FileWrite e) s1 s3" .
  have f3: "files (wld s3) = files (wld s)"
    using steps_files[OF st3] f1 by simp
  note c = steps_configuration(1,2)[OF st1] steps_configuration(1,2)[OF st3]
  from write_F_log[OF f, of f] c assms(2) obtain l
    where "files (wld s4) = write_line (F_path (ctl s)) Append l (files (wld s3))"
    by auto
  then show ?thesis
    using s' f3 assms(3)
    by (auto simp: write_line_def log_info_result flush_gauge_files_result)
qed

lemma run_loop_log:
  assumes "run_loop K tgs st s = (Inr st', s')" and "compute_F (ctl s) = Some f"
    and "files (wld s) (F_path (ctl s)) = Some ls"
  shows "\<exists>ls'. files (wld s') (F_path (ctl s)) = Some (ls @ ls') \<and> length ls' = length tgs"
  using assms
proof (induction tgs arbitrary: st s ls)
  case Nil
  then show ?case by simp
next
  case (Cons tg tgs)
  from Cons.prems(1) obtain st1 s1 where b: "loop_body K tg st s = (Inr st1, s1)"
    and l: "run_loop K tgs st1 s1 = (Inr st', s')"
    by (auto split: prod.splits sum.splits)
  note c = steps_configuration(1,2)[OF loop_body_steps[OF b]]
  from loop_body_log[OF b Cons.prems(2,3)] obtain l1
    where l1: "files (wld s1) (F_path (ctl s)) = Some (ls @ [l1])" by blast
  from Cons.IH[OF l, of "ls @ [l1]"] c Cons.prems(2) l1 obtain ls'
    where "files (wld s') (F_path (ctl s)) = Some ((ls @ [l1]) @ ls')" "length ls' = length tgs"
    by auto
  then have "files (wld s') (F_path (ctl s)) = Some (ls @ (l1 # ls'))"
    "length (l1 # ls') = length (tg # tgs)" by simp_all
  then show ?case by blast
qed

text \<open>
  C7. Every run with a functional-computation capability that reaches its initial
  output point truncates the functional log there, whatever the start frame: after the
  initial output point the log holds exactly one line, and after a run that returns a status
  it holds exactly one line per output point of this run. Lines that the log held before the
  run are not kept.
\<close>

theorem functional_log_truncated:
  assumes "solver c = Some svr" and "solution c = Some sl"
    and "run_entry K \<lparr>ctl = c, sv = svr, sol = sl, frame = 0, wld = w\<rparr> = (None, s1)"
    and "output_times K s1 = Inr ts"
    and "compute_F c = Some f"
    and "fst (run K c w) = Inr (Some st)"
  shows "(\<exists>ls. files (snd (snd (run K c w))) (F_path c) = Some ls \<and> length ls = length ts)
       \<and> (initial_output K s = (None, s') \<and> compute_F (ctl s) = Some g \<longrightarrow>
            (\<exists>l. files (wld s') (F_path (ctl s)) = Some [l]))"
proof -
  let ?s = "\<lparr>ctl = c, sv = svr, sol = sl, frame = 0, wld = w\<rparr>"
  obtain r' s'' where b: "run_body K ?s = (r', s'')" by (cases "run_body K ?s")
  with assms(1,2,6) have r': "r' = Inr (Some st)" and w': "snd (snd (run K c w)) = wld s''"
    by (simp_all add: run_unfold)
  from b r' obtain s1' ts' s2 s3 where d: "run_entry K ?s = (None, s1')"
      "output_times K s1' = Inr ts'" "ts' \<noteq> []" "initial_output K s1' = (None, s2)"
      "run_loop K (drop 1 ts') None s2 = (Inr (Some st), s3)"
      "s'' = snd (finish (Some st) s3)"
    by (auto elim: run_body_Some)
  from d(1,2) assms(3,4) have eq: "s1' = s1" "ts' = ts" by simp_all
  have c1: "compute_F (ctl s1) = Some f" "F_path (ctl s1) = F_path c"
    using run_entry_result(1)[OF assms(3)] assms(5) by (simp_all add: F_path_def)
  note c2 = steps_configuration(1,2)[OF initial_output_steps[OF d(4)[unfolded eq]]]
  from initial_output_log[OF d(4)[unfolded eq] c1(1)] c1(2) obtain l
    where l: "files (wld s2) (F_path c) = Some [l]" by auto
  from run_loop_log[OF d(5)[unfolded eq], of f "[l]"] c1 c2 l obtain ls'
    where "files (wld s3) (F_path c) = Some ([l] @ ls')" "length ls' = length (drop 1 ts)"
    by auto
  moreover have "files (wld s'') = files (wld s3)"
    unfolding d(6) by (simp add: finish_result)
  ultimately have "files (wld s'') (F_path c) = Some (l # ls')" "length (l # ls') = length ts"
    using d(3) eq by (simp_all add: Suc_diff_1)
  with w' have whole: "\<exists>ls. files (snd (snd (run K c w))) (F_path c) = Some ls
                         \<and> length ls = length ts"
    by auto
  from whole initial_output_log show ?thesis by blast
qed

lemmas resumed_defs = resumed_solution_def resumed_controller_def resumed_world_def

theorem functional_log_truncated_witness:
  "fst (run demo_collaborators resumed_controller resumed_world) = Inr (Some 3)
   \<and> (\<exists>ls. files (snd (snd (run demo_collaborators resumed_controller resumed_world)))
               ''/w/_output/F.txt'' = Some ls \<and> length ls = 2)
   \<and> (\<exists>l. files (wld (snd (initial_output demo_collaborators
               (snd (run_entry demo_collaborators
                  \<lparr>ctl = resumed_controller, sv = demo_solver, sol = resumed_solution,
                   frame = 0, wld = resumed_world\<rparr>)))))
             ''/w/_output/F.txt'' = Some [l])"
proof -
  let ?K = demo_collaborators
  let ?s = "\<lparr>ctl = resumed_controller, sv = demo_solver, sol = resumed_solution, frame = 0,
             wld = resumed_world\<rparr>"
  let ?s1 = "snd (run_entry ?K ?s)"
  have h1: "solver resumed_controller = Some demo_solver"
    and h2: "solution resumed_controller = Some resumed_solution"
    and h5: "compute_F resumed_controller = Some Inr"
    by (simp_all add: resumed_defs demo_controller_def)
  have h3: "run_entry ?K ?s = (None, ?s1)"
    by (simp add: prod_eq_iff entry_defs demo_defs resumed_defs)
  have h4: "output_times demo_collaborators ?s1 = Inr [2, 3]"
    by (simp add: output_times_def entry_defs demo_defs resumed_defs linspace_2_3_2)
  have h6: "fst (run ?K resumed_controller resumed_world) = Inr (Some 3)"
    by (simp add: run_defs demo_defs resumed_defs linspace_2_3_2)
  have p: "F_path resumed_controller = ''/w/_output/F.txt''"
    by (simp add: F_path_def path_join_def resumed_defs demo_defs)
  have i: "initial_output ?K ?s1 = (None, snd (initial_output ?K ?s1))
           \<and> compute_F (ctl ?s1) = Some Inr"
    by (simp add: prod_eq_iff run_defs demo_defs resumed_defs)
  have p1: "F_path (ctl ?s1) = ''/w/_output/F.txt''"
    by (simp add: F_path_def path_join_def entry_defs resumed_defs demo_defs)
  note t = functional_log_truncated[OF h1 h2 h3 h4 h5 h6,
             of ?s1 "snd (initial_output ?K ?s1)" Inr]
  from conjunct1[OF t] p
  have a: "\<exists>ls. files (snd (snd (run ?K resumed_controller resumed_world)))
               ''/w/_output/F.txt'' = Some ls \<and> length ls = 2"
    by (simp add: numeral_2_eq_2)
  from mp[OF conjunct2[OF t] i] p1
  have b: "\<exists>l. files (wld (snd (initial_output ?K ?s1))) ''/w/_output/F.txt'' = Some [l]"
    by simp
  from h6 a b show ?thesis by blast
qed

theorem resumed_run_truncates_log:
  "files resumed_world ''/w/_output/F.txt'' = Some [(0, [1, 2]), (1, [1, 2])]
   \<and> sol_start_frame resumed_solution = 2
   \<and> fst (run demo_collaborators resumed_controller resumed_world) = Inr (Some 3)
   \<and> files (snd (snd (run demo_collaborators resumed_controller resumed_world)))
        ''/w/_output/F.txt'' = Some [(2, [1, 2]), (3, [1, 2])]"
  by (simp add: run_defs demo_defs resumed_defs linspace_2_3_2 upt_rec)

subsection \<open>The status of the last evolution call\<close>
























subsection \<open>The directory of the derived quantities\<close>

text \<open>
  C6. With \<open>compute_p\<close> set and output enabled, the initial frame writes the derived
  quantities under \<open>outdir_p\<close>, that is \<open><outdir>/_p\<close>, but the loop passes \<open>outdir\<close> itself
  (line 390): in the run below the derived quantities of frame 0 go to \<open>/w/_output/_p\<close> and
  those of frame 1 to \<open>/w/_output\<close>.
\<close>

theorem derived_quantities_path_in_loop:
  "outdir_p derived_controller = ''/w/_output/_p''
   \<and> fst (run demo_collaborators derived_controller demo_world) = Inr (Some 1)
   \<and> derived_write_paths
        (trace (snd (snd (run demo_collaborators derived_controller demo_world))))
       = [(0, ''/w/_output/_p''), (1, ''/w/_output'')]"
  by (simp add: run_defs demo_defs derived_controller_def linspace_0_1_2)

end
